theory Spec2Isabelle
  imports Complex_Main "HOL-Library.Multiset" "HOL-Library.AList"
begin

section \<open>JavaScript numbers\<close>

text \<open>
  Every number of \<^verbatim>\<open>App.jsx\<close> is a JavaScript Number, an IEEE 754 binary64 value. A
  finite Number is the rational it denotes; the results of the arithmetic operators are
  rounded to the nearest representable value, ties to the even significand, and a result
  of magnitude \<open>2^1024\<close> or more is an infinity. The sign of zero is not represented:
  the program never divides by a variable and never inspects the sign of a zero.
\<close>

datatype jsnum = Fin rat | PInf | NInf | NaN

text \<open>\<open>ilog2 n\<close> is the position of the highest set bit of \<open>n\<close>.\<close>

fun ilog2 :: "nat \<Rightarrow> nat" where
  "ilog2 n = (if n < 2 then 0 else Suc (ilog2 (n div 2)))"

declare ilog2.simps [simp del]

text \<open>\<open>flog2 a\<close> is the binary exponent of a positive rational: \<open>2^(flog2 a) \<le> a < 2^(flog2 a + 1)\<close>.\<close>

definition flog2 :: "rat \<Rightarrow> int" where
  "flog2 a = (let (n, d) = quotient_of a;
                  k = int (ilog2 (nat n)) - int (ilog2 (nat d))
              in if a < 2 powi k then k - 1 else k)"

definition round_even :: "rat \<Rightarrow> int" where
  "round_even x = (let f = \<lfloor>x\<rfloor>; r = x - of_int f
                   in if r < 1 / 2 then f
                      else if 1 / 2 < r then f + 1
                      else if even f then f else f + 1)"

text \<open>
  Rounding a rational to binary64: 53 significant bits, least exponent \<open>-1074\<close>
  (subnormal values), overflow to an infinity.
\<close>

definition round64 :: "rat \<Rightarrow> jsnum" where
  "round64 q = (if q = 0 then Fin 0 else
     let a = \<bar>q\<bar>;
         e = max (flog2 a - 52) (- 1074);
         r = of_int (round_even (a / 2 powi e)) * 2 powi e
     in if 2 powi 1024 \<le> r then (if 0 < q then PInf else NInf)
        else Fin (sgn q * r))"

text \<open>A decimal literal of the source denotes the Number nearest to it.\<close>

definition lit :: "rat \<Rightarrow> jsnum" where
  "lit q = round64 q"

fun jsadd :: "jsnum \<Rightarrow> jsnum \<Rightarrow> jsnum" where
  "jsadd (Fin a) (Fin b) = round64 (a + b)"
| "jsadd NaN y = NaN"
| "jsadd x NaN = NaN"
| "jsadd PInf NInf = NaN"
| "jsadd NInf PInf = NaN"
| "jsadd PInf y = PInf"
| "jsadd NInf y = NInf"
| "jsadd (Fin a) y = y"

fun jsneg :: "jsnum \<Rightarrow> jsnum" where
  "jsneg (Fin a) = Fin (- a)"
| "jsneg PInf = NInf"
| "jsneg NInf = PInf"
| "jsneg NaN = NaN"

fun jssub :: "jsnum \<Rightarrow> jsnum \<Rightarrow> jsnum" where
  "jssub (Fin a) (Fin b) = round64 (a - b)"
| "jssub x y = jsadd x (jsneg y)"

text \<open>The sign of a product with an infinity; \<open>Infinity * 0\<close> is \<open>NaN\<close>.\<close>

definition signed_inf :: "rat \<Rightarrow> jsnum" where
  "signed_inf s = (if s = 0 then NaN else if 0 < s then PInf else NInf)"

fun jsmul :: "jsnum \<Rightarrow> jsnum \<Rightarrow> jsnum" where
  "jsmul (Fin a) (Fin b) = round64 (a * b)"
| "jsmul NaN y = NaN"
| "jsmul x NaN = NaN"
| "jsmul PInf (Fin b) = signed_inf b"
| "jsmul NInf (Fin b) = signed_inf (- b)"
| "jsmul (Fin a) PInf = signed_inf a"
| "jsmul (Fin a) NInf = signed_inf (- a)"
| "jsmul PInf PInf = PInf"
| "jsmul NInf NInf = PInf"
| "jsmul PInf NInf = NInf"
| "jsmul NInf PInf = NInf"

text \<open>
  Division; a finite divisor \<open>0\<close> stands for \<open>+0\<close>. The program only divides by the
  literals 4 and 9.
\<close>

fun jsdiv :: "jsnum \<Rightarrow> jsnum \<Rightarrow> jsnum" where
  "jsdiv (Fin a) (Fin b) = (if b = 0 then signed_inf a else round64 (a / b))"
| "jsdiv NaN y = NaN"
| "jsdiv x NaN = NaN"
| "jsdiv (Fin a) y = Fin 0"
| "jsdiv PInf (Fin b) = (if 0 \<le> b then PInf else NInf)"
| "jsdiv NInf (Fin b) = (if 0 \<le> b then NInf else PInf)"
| "jsdiv x y = NaN"

text \<open>
  \<^verbatim>\<open>Math.round\<close>: the nearest integer, a tie going towards \<open>+\<infinity>\<close>. The result of a
  finite argument is representable, so no rounding to binary64 follows.
\<close>

fun Math_round :: "jsnum \<Rightarrow> jsnum" where
  "Math_round (Fin a) = Fin (of_int \<lfloor>a + 1 / 2\<rfloor>)"
| "Math_round x = x"

text \<open>\<^verbatim>\<open>Math.max(x, y)\<close>: \<open>NaN\<close> when either argument is.\<close>

fun Math_max :: "jsnum \<Rightarrow> jsnum \<Rightarrow> jsnum" where
  "Math_max NaN y = NaN"
| "Math_max x NaN = NaN"
| "Math_max PInf y = PInf"
| "Math_max x PInf = PInf"
| "Math_max NInf y = y"
| "Math_max x NInf = x"
| "Math_max (Fin a) (Fin b) = Fin (max a b)"

text \<open>A Number is falsy when it is zero or \<open>NaN\<close>.\<close>

fun truthy_num :: "jsnum \<Rightarrow> bool" where
  "truthy_num (Fin a) = (a \<noteq> 0)"
| "truthy_num NaN = False"
| "truthy_num x = True"

text \<open>Neither \<open>NaN\<close> nor negative.\<close>

fun nonneg :: "jsnum \<Rightarrow> bool" where
  "nonneg (Fin a) = (0 \<le> a)"
| "nonneg PInf = True"
| "nonneg x = False"

section \<open>Target calculator\<close>

text \<open>
  \<^verbatim>\<open>
  const calculateBMR = (weight, height, age, gender) => {
    if (gender === 'male') return 88.362 + (13.397 * weight) + (4.799 * height) - (5.677 * age);
    return 447.593 + (9.247 * weight) + (3.098 * height) - (4.330 * age);
  };\<close>
\<close>

definition calculateBMR :: "jsnum \<Rightarrow> jsnum \<Rightarrow> jsnum \<Rightarrow> string \<Rightarrow> jsnum" where
  "calculateBMR weight height age gender =
     (if gender = ''male''
      then jssub (jsadd (jsadd (lit 88.362) (jsmul (lit 13.397) weight))
                        (jsmul (lit 4.799) height))
                 (jsmul (lit 5.677) age)
      else jssub (jsadd (jsadd (lit 447.593) (jsmul (lit 9.247) weight))
                        (jsmul (lit 3.098) height))
                 (jsmul (lit 4.330) age))"

text \<open>
  \<^verbatim>\<open>
  const calculateTDEE = (bmr, activityLevel) => {
    const activityMultipliers = { sedentary: 1.2, light: 1.375, moderate: 1.55, active: 1.725, veryActive: 1.9 };
    return bmr * (activityMultipliers[activityLevel] || 1.2);
  };\<close>
  \<open>activityMultipliers\<close> is an object literal, so \<open>activityMultipliers[k]\<close> looks \<open>k\<close> up
  among its own properties and then along its prototype chain, which is
  \<open>Object.prototype\<close>: the lookup of an inherited name gives a function (or, for
  \<open>__proto__\<close>, the prototype object), not \<open>undefined\<close>.
\<close>

datatype jsval = Undefined | Number jsnum | Inherited

definition activityMultipliers :: "(string \<times> rat) list" where
  "activityMultipliers =
     [(''sedentary'', 1.2), (''light'', 1.375), (''moderate'', 1.55),
      (''active'', 1.725), (''veryActive'', 1.9)]"

definition object_prototype_names :: "string list" where
  "object_prototype_names =
     [''constructor'', ''hasOwnProperty'', ''isPrototypeOf'', ''propertyIsEnumerable'',
      ''toLocaleString'', ''toString'', ''valueOf'', ''__proto__'',
      ''__defineGetter__'', ''__defineSetter__'', ''__lookupGetter__'', ''__lookupSetter__'']"

definition get_property :: "(string \<times> rat) list \<Rightarrow> string \<Rightarrow> jsval" where
  "get_property obj k =
     (case map_of obj k of
        Some q \<Rightarrow> Number (lit q)
      | None \<Rightarrow> if k \<in> set object_prototype_names then Inherited else Undefined)"

fun truthy :: "jsval \<Rightarrow> bool" where
  "truthy Undefined = False"
| "truthy (Number x) = truthy_num x"
| "truthy Inherited = True"

text \<open>\<open>v || d\<close>\<close>

definition or_else :: "jsval \<Rightarrow> jsval \<Rightarrow> jsval" where
  "or_else v d = (if truthy v then v else d)"

text \<open>
  The operand conversion of \<open>*\<close>: \<open>undefined\<close> and the members of \<open>Object.prototype\<close>
  (whose string forms are not numeric) convert to \<open>NaN\<close>.
\<close>

fun ToNumber :: "jsval \<Rightarrow> jsnum" where
  "ToNumber (Number x) = x"
| "ToNumber Undefined = NaN"
| "ToNumber Inherited = NaN"

definition calculateTDEE :: "jsnum \<Rightarrow> string \<Rightarrow> jsnum" where
  "calculateTDEE bmr activityLevel =
     jsmul bmr (ToNumber (or_else (get_property activityMultipliers activityLevel)
                                  (Number (lit 1.2))))"

text \<open>
  \<^verbatim>\<open>
  const adjustCaloriesForGoal = (tdee, goal) => {
      switch(goal) {
          case 'lose': return tdee * 0.85; // 15% deficit
          case 'gain': return tdee * 1.15; // 15% surplus
          default: return tdee; // maintain
      }
  }\<close>
\<close>

definition adjustCaloriesForGoal :: "jsnum \<Rightarrow> string \<Rightarrow> jsnum" where
  "adjustCaloriesForGoal tdee goal =
     (if goal = ''lose'' then jsmul tdee (lit 0.85)
      else if goal = ''gain'' then jsmul tdee (lit 1.15)
      else tdee)"

record macros =
  carbs :: jsnum
  protein :: jsnum
  fat :: jsnum

definition getMacroTargets :: "jsnum \<Rightarrow> macros" where
  "getMacroTargets calories =
     (let carbsCalories = jsmul calories (lit 0.4);
          proteinCalories = jsmul calories (lit 0.3);
          fatCalories = jsmul calories (lit 0.3)
      in \<lparr>carbs = Math_round (jsdiv carbsCalories (lit 4)),
          protein = Math_round (jsdiv proteinCalories (lit 4)),
          fat = Math_round (jsdiv fatCalories (lit 9))\<rparr>)"

section \<open>The target calculator of the specification\<close>

text \<open>
  Section 4.1 of the specification, in its words and with its names, evaluated in the
  arithmetic of Numbers.
  \<^item> \<open>computeBMR\<close>: for \<open>male\<close>, \<open>88.362 + 13.397\<cdot>weight + 4.799\<cdot>height - 5.677\<cdot>age\<close>; any
    other gender is treated as female, \<open>447.593 + 9.247\<cdot>weight + 3.098\<cdot>height - 4.330\<cdot>age\<close>.
  \<^item> \<open>computeTDEE\<close>: the basal rate times the multiplier of the level: sedentary 1.2,
    light 1.375, moderate 1.55, active 1.725, veryActive 1.9; an unrecognized level
    defaults to 1.2.
  \<^item> \<open>adjustForGoal\<close>: lose, times 0.85; gain, times 1.15; maintain or anything else,
    unchanged.
\<close>

definition computeBMR :: "jsnum \<Rightarrow> jsnum \<Rightarrow> jsnum \<Rightarrow> string \<Rightarrow> jsnum" where
  "computeBMR w h a g =
     (if g = ''male''
      then jssub (jsadd (jsadd (lit 88.362) (jsmul (lit 13.397) w)) (jsmul (lit 4.799) h))
                 (jsmul (lit 5.677) a)
      else jssub (jsadd (jsadd (lit 447.593) (jsmul (lit 9.247) w)) (jsmul (lit 3.098) h))
                 (jsmul (lit 4.330) a))"

definition multiplier :: "string \<Rightarrow> rat" where
  "multiplier level =
     (if level = ''sedentary'' then 1.2
      else if level = ''light'' then 1.375
      else if level = ''moderate'' then 1.55
      else if level = ''active'' then 1.725
      else if level = ''veryActive'' then 1.9
      else 1.2)"

definition computeTDEE :: "jsnum \<Rightarrow> string \<Rightarrow> jsnum" where
  "computeTDEE bmr level = jsmul bmr (lit (multiplier level))"

definition adjustForGoal :: "jsnum \<Rightarrow> string \<Rightarrow> jsnum" where
  "adjustForGoal tdee g =
     (if g = ''lose'' then jsmul tdee (lit 0.85)
      else if g = ''gain'' then jsmul tdee (lit 1.15)
      else tdee)"

section \<open>Documents and the document store\<close>

text \<open>
  The form state of \<^verbatim>\<open>ProfileForm\<close>: every field is the string of a controlled
  input or select. The stored profile is the form data spread together with the derived
  targets: \<^verbatim>\<open>{ ...formData, calorieTarget, ...macroTargets, createdAt: new Date() }\<close>.
\<close>

type_synonym uid = string
type_synonym timestamp = int

record formData =
  height :: string
  weight :: string
  age :: string
  gender :: string
  activityLevel :: string
  goal :: string

record profile = formData +
  calorieTarget :: jsnum
  carbs :: jsnum
  protein :: jsnum
  fat :: jsnum
  createdAt :: timestamp

text \<open>
  The content of a meal, as the manual form or the inference result gives it; a property
  that is absent from the object is \<open>None\<close>. A stored meal adds \<open>createdAt\<close>.
\<close>

record foodData =
  name :: "string option"
  calories :: "jsnum option"
  carbs :: "jsnum option"
  protein :: "jsnum option"
  fat :: "jsnum option"

record meal = foodData +
  createdAt :: timestamp

text \<open>
  The documents of one deployment, by path:
  \<^verbatim>\<open>users/<uid>/profile/data\<close>, \<^verbatim>\<open>users/<uid>/meals/<id>\<close> and
  \<^verbatim>\<open>users/<uid>/daily_stats/<date>\<close> (whose one field is \<open>waterCount\<close>).
\<close>

datatype path = ProfilePath uid | MealPath uid string | DailyStatsPath uid string

datatype document = ProfileDoc profile | MealDoc meal | DailyStatsDoc jsnum

type_synonym store = "(path \<times> document) list"

definition setDoc :: "store \<Rightarrow> path \<Rightarrow> document \<Rightarrow> store" where
  "setDoc st p d = AList.update p d st"

text \<open>\<^verbatim>\<open>getDocs(collection(..., userId, "meals"))\<close>: every document of the collection, no filter.\<close>

fun in_meals :: "uid \<Rightarrow> path \<Rightarrow> bool" where
  "in_meals u (MealPath v i) = (u = v)"
| "in_meals u p = False"

fun in_daily_stats :: "uid \<Rightarrow> path \<Rightarrow> bool" where
  "in_daily_stats u (DailyStatsPath v i) = (u = v)"
| "in_daily_stats u p = False"

definition getDocs :: "store \<Rightarrow> (path \<Rightarrow> bool) \<Rightarrow> path list" where
  "getDocs st coll = filter coll (map fst st)"

text \<open>
  \<^verbatim>\<open>batch.commit()\<close> of a batch of deletes: the store applies all of them together.
\<close>

definition commit_deletes :: "path list \<Rightarrow> store \<Rightarrow> store" where
  "commit_deletes batch st = filter (\<lambda>(p, d). p \<notin> set batch) st"

datatype alert =
    Alert_fill_all_fields
  | Alert_error_occurred
  | Alert_profile_updated
  | Alert_ai_could_not_analyze

text \<open>
  A value that \<^verbatim>\<open>JSON.parse\<close> returns (or \<open>null\<close>, the initial \<open>aiResult\<close>): an object,
  seen through the five properties of a meal, or a value that is not an object, of which
  only its truthiness matters.
\<close>

datatype json_value = Primitive bool | Object foodData

fun truthy_json :: "json_value \<Rightarrow> bool" where
  "truthy_json (Primitive b) = b"
| "truthy_json (Object f) = True"

definition no_food :: foodData where
  "no_food = \<lparr>name = None, calories = None, carbs = None, protein = None, fat = None\<rparr>"

text \<open>The properties that the spread \<^verbatim>\<open>{ ...foodData, createdAt }\<close> copies into a meal.\<close>

fun spread_food :: "json_value \<Rightarrow> foodData" where
  "spread_food (Object f) = f"
| "spread_food (Primitive b) = no_food"

text \<open>The state of the session that the operations below read and write.\<close>

record app =
  store :: store
  userId :: "uid option"
  userProfile :: "profile option"
  editingMeal :: "string option"
  isAddFoodModalOpen :: bool
  aiResult :: json_value
  isLoading :: bool
  alerts :: "alert list"

text \<open>
  What the operations take from their environment: the built-in \<^verbatim>\<open>parseFloat\<close>,
  \<^verbatim>\<open>parseInt\<close> and \<^verbatim>\<open>JSON.parse\<close> (the latter \<open>None\<close> where it throws), the clock,
  \<^verbatim>\<open>auth.currentUser\<close>, the identifier that \<^verbatim>\<open>addDoc\<close> generates, and whether the next
  write to the store resolves (\<open>True\<close>) or rejects.
\<close>

record env =
  parseFloat :: "string \<Rightarrow> jsnum"
  parseInt :: "string \<Rightarrow> jsnum"
  JSON_parse :: "string \<Rightarrow> json_value option"
  now :: timestamp
  currentUser :: "uid option"
  new_id :: string
  write_ok :: bool

section \<open>Profile submission\<close>

text \<open>\<open>!s\<close> for a string \<open>s\<close>: only the empty string is falsy.\<close>

definition not_str :: "string \<Rightarrow> bool" where
  "not_str s = (s = [])"

text \<open>
  Lines 160--163 of \<^verbatim>\<open>ProfileSetup.handleSubmit\<close>, repeated as lines 495--498 of
  \<^verbatim>\<open>SettingsPage.handleSubmit\<close>:
  \<^verbatim>\<open>
  const bmr = calculateBMR(parseFloat(weight), parseFloat(height), parseInt(age), gender);
  const tdee = calculateTDEE(bmr, activityLevel);
  const calorieTarget = Math.round(adjustCaloriesForGoal(tdee, goal));
  const macroTargets = getMacroTargets(calorieTarget);\<close>
\<close>

definition calorieTarget_of :: "env \<Rightarrow> 'a formData_scheme \<Rightarrow> jsnum" where
  "calorieTarget_of env formData =
     (let bmr = calculateBMR (parseFloat env (weight formData)) (parseFloat env (height formData))
                  (parseInt env (age formData)) (gender formData);
          tdee = calculateTDEE bmr (activityLevel formData)
      in Math_round (adjustCaloriesForGoal tdee (goal formData)))"

definition ProfileSetup_handleSubmit :: "env \<Rightarrow> formData \<Rightarrow> app \<Rightarrow> app" where
  "ProfileSetup_handleSubmit env formData s =
     (if not_str (height formData) \<or> not_str (weight formData) \<or> not_str (age formData)
      then s\<lparr>alerts := alerts s @ [Alert_fill_all_fields]\<rparr>
      else
        let calorieTarget = calorieTarget_of env formData;
            macroTargets = getMacroTargets calorieTarget;
            profileData = formData.extend formData
              (profile.fields calorieTarget (macros.carbs macroTargets)
                 (macros.protein macroTargets) (macros.fat macroTargets) (now env))
        in case currentUser env of
             None \<Rightarrow> s\<lparr>alerts := alerts s @ [Alert_error_occurred]\<rparr>
           | Some u \<Rightarrow>
               if write_ok env
               then s\<lparr>store := setDoc (store s) (ProfilePath u) (ProfileDoc profileData),
                      userProfile := Some profileData\<rparr>
               else s\<lparr>alerts := alerts s @ [Alert_error_occurred]\<rparr>)"

text \<open>
  \<^verbatim>\<open>App.handleProfileUpdate\<close>; \<open>Inl\<close> is the rejected promise of a failed write. The
  written data holds every field of the profile, so the merge replaces the document.
\<close>

definition App_handleProfileUpdate :: "env \<Rightarrow> profile \<Rightarrow> app \<Rightarrow> app + app" where
  "App_handleProfileUpdate env newProfileData s =
     (case userId s of
        None \<Rightarrow> Inr s
      | Some u \<Rightarrow>
          if write_ok env
          then Inr (s\<lparr>store := setDoc (store s) (ProfilePath u) (ProfileDoc newProfileData),
                      userProfile := Some newProfileData\<rparr>)
          else Inl s)"

text \<open>
  \<^verbatim>\<open>SettingsPage.handleSubmit\<close>: the form data is the stored profile as the form edited
  it, and the new targets replace the old ones in it.
\<close>

definition SettingsPage_handleSubmit :: "env \<Rightarrow> profile \<Rightarrow> app \<Rightarrow> app" where
  "SettingsPage_handleSubmit env formData s =
     (if not_str (height formData) \<or> not_str (weight formData) \<or> not_str (age formData)
      then s\<lparr>alerts := alerts s @ [Alert_fill_all_fields]\<rparr>
      else
        let calorieTarget = calorieTarget_of env formData;
            macroTargets = getMacroTargets calorieTarget;
            profileData = formData\<lparr>calorieTarget := calorieTarget,
              profile.carbs := macros.carbs macroTargets,
              profile.protein := macros.protein macroTargets,
              profile.fat := macros.fat macroTargets\<rparr>
        in case App_handleProfileUpdate env profileData s of
             Inl s' \<Rightarrow> s'
           | Inr s' \<Rightarrow> s'\<lparr>alerts := alerts s' @ [Alert_profile_updated]\<rparr>)"

text \<open>
  A submission is rejected when all it does is to show the alert that asks to fill every
  field: the store and the profile of the session stay as they were.
\<close>

definition rejected :: "app \<Rightarrow> app \<Rightarrow> bool" where
  "rejected s s' = (s' = s\<lparr>alerts := alerts s @ [Alert_fill_all_fields]\<rparr>)"

text \<open>
  A stand-in for \<^verbatim>\<open>parseFloat\<close> and \<^verbatim>\<open>parseInt\<close> in the concrete scenarios: on a
  non-empty string of decimal digits both return the number it denotes. (On any other
  string this function returns \<open>NaN\<close>, which the built-ins do not always do; it is
  applied to digit strings and to the string \<open>abc\<close>, where the built-ins return \<open>NaN\<close>
  too.)
\<close>

definition digit_value :: "char \<Rightarrow> nat" where
  "digit_value c = of_char c - 48"

definition is_digit :: "char \<Rightarrow> bool" where
  "is_digit c = (48 \<le> (of_char c :: nat) \<and> (of_char c :: nat) \<le> 57)"

definition parse_digits :: "string \<Rightarrow> jsnum" where
  "parse_digits s =
     (if s \<noteq> [] \<and> list_all is_digit s
      then round64 (of_nat (foldl (\<lambda>n c. 10 * n + digit_value c) 0 s))
      else NaN)"

text \<open>
  The built-in \<^verbatim>\<open>parseFloat\<close> and \<^verbatim>\<open>parseInt\<close> on decimal numerals. A decimal numeral
  is a string of at most 20 characters that consists of decimal digits, optionally
  followed by a point and further digits (\<open>175\<close>, \<open>30.9\<close>); \<open>numeral_value\<close> is the number
  that it denotes. On a decimal numeral \<^verbatim>\<open>parseFloat\<close> returns the Number nearest to that
  value, and \<^verbatim>\<open>parseInt\<close> stops at the point and returns the Number of the digits before
  it. (On other strings the two functions below return \<open>NaN\<close>, which the built-ins do not
  always do; they are applied to decimal numerals only.)
\<close>

definition digits_value :: "string \<Rightarrow> nat" where
  "digits_value s = foldl (\<lambda>n c. 10 * n + digit_value c) 0 s"

definition decimal :: "string \<Rightarrow> bool" where
  "decimal s =
     (length s \<le> 20 \<and> takeWhile is_digit s \<noteq> [] \<and>
      (case dropWhile is_digit s of
         [] \<Rightarrow> True
       | c # f \<Rightarrow> c = CHR ''.'' \<and> f \<noteq> [] \<and> list_all is_digit f))"

definition numeral_value :: "string \<Rightarrow> rat" where
  "numeral_value s =
     of_nat (digits_value (takeWhile is_digit s)) +
     (case dropWhile is_digit s of
        [] \<Rightarrow> 0
      | c # f \<Rightarrow> of_nat (digits_value f) / 10 ^ length f)"

definition parseFloat_decimal :: "string \<Rightarrow> jsnum" where
  "parseFloat_decimal s = (if decimal s then round64 (numeral_value s) else NaN)"

definition parseInt_decimal :: "string \<Rightarrow> jsnum" where
  "parseInt_decimal s =
     (if decimal s then round64 (of_nat (digits_value (takeWhile is_digit s))) else NaN)"

section \<open>Nutrition aggregator\<close>

text \<open>
  \<^verbatim>\<open>
  todaysMeals.reduce((acc, meal) => {
      acc.calories += meal.calories || 0; acc.carbs += meal.carbs || 0;
      acc.protein += meal.protein || 0; acc.fat += meal.fat || 0;
      return acc;
  }, { calories: 0, carbs: 0, protein: 0, fat: 0 })\<close>
  \<open>or_zero\<close> is \<open>v || 0\<close> for a property that is absent or a Number.
\<close>

record totals =
  calories :: jsnum
  carbs :: jsnum
  protein :: jsnum
  fat :: jsnum

fun or_zero :: "jsnum option \<Rightarrow> jsnum" where
  "or_zero None = Fin 0"
| "or_zero (Some x) = (if truthy_num x then x else Fin 0)"

definition reducer :: "totals \<Rightarrow> 'a foodData_scheme \<Rightarrow> totals" where
  "reducer acc meal =
     \<lparr>totals.calories = jsadd (totals.calories acc) (or_zero (foodData.calories meal)),
      totals.carbs = jsadd (totals.carbs acc) (or_zero (foodData.carbs meal)),
      totals.protein = jsadd (totals.protein acc) (or_zero (foodData.protein meal)),
      totals.fat = jsadd (totals.fat acc) (or_zero (foodData.fat meal))\<rparr>"

definition consumedTotals :: "'a foodData_scheme list \<Rightarrow> totals" where
  "consumedTotals todaysMeals =
     foldl reducer \<lparr>totals.calories = Fin 0, totals.carbs = Fin 0,
                    totals.protein = Fin 0, totals.fat = Fin 0\<rparr> todaysMeals"

section \<open>Water tracker\<close>

text \<open>
  \<open>waterCount\<close> is the state of the component, \<open>stored\<close> the \<open>waterCount\<close> of today's
  \<open>daily_stats\<close> document (\<open>None\<close> while there is none).
  \<^verbatim>\<open>
  const updateWaterCount = async (newCount) => {
      const count = Math.max(0, newCount);
      setWaterCount(count);
      await setDoc(waterDocRef, { waterCount: count }, { merge: true });
  };\<close>
  The buttons call it with \<open>waterCount - 1\<close> and \<open>waterCount + 1\<close>; the snapshot listener
  sets \<open>waterCount\<close> to \<open>doc.data().waterCount || 0\<close>, or to 0 when there is no document.
\<close>

record water =
  waterCount :: jsnum
  stored :: "jsnum option"

datatype water_event = Minus bool | Plus bool | Snapshot

definition updateWaterCount :: "bool \<Rightarrow> jsnum \<Rightarrow> water \<Rightarrow> water" where
  "updateWaterCount ok newCount w =
     (let count = Math_max (Fin 0) newCount
      in w\<lparr>waterCount := count, stored := (if ok then Some count else stored w)\<rparr>)"

fun water_step :: "water \<Rightarrow> water_event \<Rightarrow> water" where
  "water_step w (Minus ok) = updateWaterCount ok (jssub (waterCount w) (Fin 1)) w"
| "water_step w (Plus ok) = updateWaterCount ok (jsadd (waterCount w) (Fin 1)) w"
| "water_step w Snapshot = w\<lparr>waterCount := or_zero (stored w)\<rparr>"

definition water_run :: "water \<Rightarrow> water_event list \<Rightarrow> water" where
  "water_run w evs = foldl water_step w evs"

text \<open>The displayed count and the stored count, when there is one, are not negative.\<close>

definition stored_nonneg :: "water \<Rightarrow> bool" where
  "stored_nonneg w = (case stored w of None \<Rightarrow> True | Some c \<Rightarrow> nonneg c)"

definition water_ok :: "water \<Rightarrow> bool" where
  "water_ok w = (nonneg (waterCount w) \<and> stored_nonneg w)"

section \<open>Data wipe\<close>

text \<open>
  \<^verbatim>\<open>App.handleDataDelete\<close>. The two reads and the commit may each reject; a rejection
  ends the function at that await, before \<^verbatim>\<open>setUserProfile(null)\<close>.
\<close>

datatype completion = Resolved | Rejected

record wipe_env =
  meals_read_ok :: bool
  stats_read_ok :: bool
  commit_ok :: bool

definition App_handleDataDelete :: "wipe_env \<Rightarrow> app \<Rightarrow> completion \<times> app" where
  "App_handleDataDelete w s =
     (case userId s of
        None \<Rightarrow> (Resolved, s)
      | Some u \<Rightarrow>
          let batch0 = [ProfilePath u] in
          if \<not> meals_read_ok w then (Rejected, s)
          else
            let mealsSnapshot = getDocs (store s) (in_meals u);
                batch1 = batch0 @ mealsSnapshot in
            if \<not> stats_read_ok w then (Rejected, s)
            else
              let dailyStatsSnapshot = getDocs (store s) (in_daily_stats u);
                  batch2 = batch1 @ dailyStatsSnapshot in
              if \<not> commit_ok w then (Rejected, s)
              else (Resolved, s\<lparr>store := commit_deletes batch2 (store s),
                                 userProfile := None\<rparr>))"

fun owner :: "path \<Rightarrow> uid" where
  "owner (ProfilePath u) = u"
| "owner (MealPath u i) = u"
| "owner (DailyStatsPath u i) = u"

section \<open>Meal inference\<close>

text \<open>
  The response of the inference service as \<^verbatim>\<open>sendAIRequest\<close> reads it: the request
  fails, or there is a response with its \<open>ok\<close> flag and a body, \<open>None\<close> when
  \<^verbatim>\<open>response.json()\<close> rejects or gives \<open>null\<close>. In the body each of \<open>candidates\<close>,
  \<open>content\<close>, \<open>parts\<close> and \<open>text\<close> may be absent.
\<close>

record part =
  part_text :: "string option"

record content =
  parts :: "part list option"

record candidate =
  candidate_content :: "content option"

record body =
  candidates :: "candidate list option"

datatype fetch_result = NetworkError | Response bool "body option"

text \<open>
  The \<open>try\<close> block of \<^verbatim>\<open>sendAIRequest\<close>; \<open>None\<close> is any of its exceptions.
  \<^verbatim>\<open>
  if (!response.ok) throw new Error(...);
  const result = await response.json();
  if (result.candidates && result.candidates.length > 0 && result.candidates[0].content &&
      result.candidates[0].content.parts && result.candidates[0].content.parts.length > 0) {
      const jsonText = result.candidates[0].content.parts[0].text;
      setAiResult(JSON.parse(jsonText));
  } else throw new Error("Invalid response structure from Gemini API");\<close>
  \<^verbatim>\<open>JSON.parse(undefined)\<close> throws.
\<close>

fun jsonText_of :: "body \<Rightarrow> string option" where
  "jsonText_of b =
     (case candidates b of
        None \<Rightarrow> None
      | Some [] \<Rightarrow> None
      | Some (c # cs) \<Rightarrow>
          (case candidate_content c of
             None \<Rightarrow> None
           | Some ct \<Rightarrow>
               (case parts ct of
                  None \<Rightarrow> None
                | Some [] \<Rightarrow> None
                | Some (p # ps) \<Rightarrow> part_text p)))"

fun try_parse :: "env \<Rightarrow> fetch_result \<Rightarrow> json_value option" where
  "try_parse env NetworkError = None"
| "try_parse env (Response ok None) = None"
| "try_parse env (Response ok (Some b)) =
     (if \<not> ok then None
      else case jsonText_of b of
             None \<Rightarrow> None
           | Some jsonText \<Rightarrow> JSON_parse env jsonText)"

definition sendAIRequest :: "env \<Rightarrow> fetch_result \<Rightarrow> app \<Rightarrow> app" where
  "sendAIRequest env r s =
     (case try_parse env r of
        Some v \<Rightarrow> s\<lparr>aiResult := v, isLoading := False\<rparr>
      | None \<Rightarrow> s\<lparr>alerts := alerts s @ [Alert_ai_could_not_analyze],
                   aiResult := Primitive False, isLoading := False\<rparr>)"

text \<open>
  \<^verbatim>\<open>App.handleFoodAction\<close>: an edit updates the fields that the data has, a creation
  adds a document with a generated identifier. A failed write leaves the store as it was.
\<close>

definition merge_food :: "meal \<Rightarrow> foodData \<Rightarrow> meal" where
  "merge_food m f =
     m\<lparr>name := (case name f of None \<Rightarrow> name m | Some x \<Rightarrow> Some x),
       foodData.calories := (case foodData.calories f of None \<Rightarrow> foodData.calories m | Some x \<Rightarrow> Some x),
       foodData.carbs := (case foodData.carbs f of None \<Rightarrow> foodData.carbs m | Some x \<Rightarrow> Some x),
       foodData.protein := (case foodData.protein f of None \<Rightarrow> foodData.protein m | Some x \<Rightarrow> Some x),
       foodData.fat := (case foodData.fat f of None \<Rightarrow> foodData.fat m | Some x \<Rightarrow> Some x)\<rparr>"

definition App_handleFoodAction :: "env \<Rightarrow> json_value \<Rightarrow> app \<Rightarrow> app" where
  "App_handleFoodAction env foodData s =
     (case userId s of
        None \<Rightarrow> s
      | Some u \<Rightarrow>
          if \<not> write_ok env then s
          else
            (case editingMeal s of
               Some i \<Rightarrow>
                 (case map_of (store s) (MealPath u i) of
                    Some (MealDoc m) \<Rightarrow>
                      s\<lparr>store := setDoc (store s) (MealPath u i)
                                    (MealDoc (merge_food m (spread_food foodData)))\<rparr>
                  | _ \<Rightarrow> s)
             | None \<Rightarrow>
                 s\<lparr>store := setDoc (store s) (MealPath u (new_id env))
                     (MealDoc (foodData.extend (spread_food foodData)
                                 (meal.fields (now env))))\<rparr>))"

text \<open>
  \<^verbatim>\<open>const handleClose = () => { resetState(); onClose(); };\<close> and
  \<^verbatim>\<open>const handleAiResultConfirm = () => { if(aiResult) { onFoodAction(aiResult); handleClose(); } };\<close>
\<close>

definition handleClose :: "app \<Rightarrow> app" where
  "handleClose s = s\<lparr>aiResult := Primitive False, isLoading := False,
                      isAddFoodModalOpen := False, editingMeal := None\<rparr>"

definition handleAiResultConfirm :: "env \<Rightarrow> app \<Rightarrow> app" where
  "handleAiResultConfirm env s =
     (if truthy_json (aiResult s) then handleClose (App_handleFoodAction env (aiResult s) s)
      else s)"

text \<open>
  The three failures of the specification, stated on the response: an error (the request
  fails or the status is not ok), a malformed response (the body or the text is not JSON),
  and a response that lacks the expected fields: the result that it carries is absent or
  is not an object with \<open>name\<close>, \<open>calories\<close>, \<open>carbs\<close>, \<open>protein\<close> and \<open>fat\<close>.
\<close>

fun is_error :: "fetch_result \<Rightarrow> bool" where
  "is_error NetworkError = True"
| "is_error (Response ok b) = (\<not> ok)"

fun is_malformed :: "env \<Rightarrow> fetch_result \<Rightarrow> bool" where
  "is_malformed env (Response ok None) = True"
| "is_malformed env (Response ok (Some b)) =
     (case jsonText_of b of None \<Rightarrow> False | Some t \<Rightarrow> JSON_parse env t = None)"
| "is_malformed env NetworkError = False"

fun has_expected_fields :: "json_value \<Rightarrow> bool" where
  "has_expected_fields (Object f) =
     (name f \<noteq> None \<and> foodData.calories f \<noteq> None \<and> foodData.carbs f \<noteq> None \<and>
      foodData.protein f \<noteq> None \<and> foodData.fat f \<noteq> None)"
| "has_expected_fields (Primitive b) = False"

fun lacks_expected_fields :: "env \<Rightarrow> fetch_result \<Rightarrow> bool" where
  "lacks_expected_fields env (Response ok (Some b)) =
     (case jsonText_of b of
        None \<Rightarrow> True
      | Some t \<Rightarrow>
          (case JSON_parse env t of
             None \<Rightarrow> False
           | Some v \<Rightarrow> (if has_expected_fields v then False else True)))"
| "lacks_expected_fields env r = False"

text \<open>
  What the code checks instead: that the body has \<open>candidates[0].content.parts[0]\<close>, and a
  \<open>text\<close> there.
\<close>

fun lacks_text :: "fetch_result \<Rightarrow> bool" where
  "lacks_text (Response ok (Some b)) = (jsonText_of b = None)"
| "lacks_text r = False"

section \<open>Reading the state; concrete inputs\<close>

text \<open>The point read of the profile document, as the start of the session does it.\<close>

definition getProfile :: "app \<Rightarrow> uid \<Rightarrow> profile option" where
  "getProfile s u =
     (case map_of (store s) (ProfilePath u) of
        Some (ProfileDoc p) \<Rightarrow> Some p
      | _ \<Rightarrow> None)"

text \<open>A rational is a binary64 value when rounding leaves it as it is.\<close>

definition is_double :: "rat \<Rightarrow> bool" where
  "is_double q = (round64 q = Fin q)"

fun is_number :: "jsnum \<Rightarrow> bool" where
  "is_number (Fin q) = is_double q"
| "is_number x = True"

text \<open>
  Whole amounts: a property of a meal that is absent or a non-negative integer, and the
  rational that it adds to a total.
\<close>

fun whole :: "jsnum option \<Rightarrow> bool" where
  "whole None = True"
| "whole (Some (Fin q)) = (0 \<le> q \<and> of_int \<lfloor>q\<rfloor> = q)"
| "whole (Some x) = False"

fun amount :: "jsnum option \<Rightarrow> rat" where
  "amount (Some (Fin q)) = q"
| "amount x = 0"

definition whole_meal :: "'a foodData_scheme \<Rightarrow> bool" where
  "whole_meal m = (whole (foodData.calories m) \<and> whole (foodData.carbs m) \<and>
                   whole (foodData.protein m) \<and> whole (foodData.fat m))"

definition within_2_53 :: "'a foodData_scheme list \<Rightarrow> bool" where
  "within_2_53 ms =
     (sum_list (map (\<lambda>m. amount (foodData.calories m)) ms) \<le> 2 ^ 53 \<and>
      sum_list (map (\<lambda>m. amount (foodData.carbs m)) ms) \<le> 2 ^ 53 \<and>
      sum_list (map (\<lambda>m. amount (foodData.protein m)) ms) \<le> 2 ^ 53 \<and>
      sum_list (map (\<lambda>m. amount (foodData.fat m)) ms) \<le> 2 ^ 53)"

text \<open>The session and the profile form of the concrete scenarios.\<close>

definition scenario_env :: env where
  "scenario_env = \<lparr>parseFloat = parse_digits, parseInt = parse_digits,
     JSON_parse = (\<lambda>t. None), now = 0, currentUser = Some ''u1'', new_id = ''m1'',
     write_ok = True\<rparr>"

text \<open>
  The same session with the built-ins on decimal numerals, and one whose \<^verbatim>\<open>JSON.parse\<close>
  knows the two texts \<open>{}\<close> (the object without properties) and \<open>null\<close>.
\<close>

definition numeral_env :: env where
  "numeral_env = scenario_env\<lparr>parseFloat := parseFloat_decimal, parseInt := parseInt_decimal\<rparr>"

definition json_env :: env where
  "json_env = scenario_env\<lparr>JSON_parse :=
     (\<lambda>t. if t = ''{}'' then Some (Object no_food)
          else if t = ''null'' then Some (Primitive False)
          else None)\<rparr>"

text \<open>An ok response whose body has one candidate with one part, of the text \<open>t\<close>.\<close>

definition text_response :: "string \<Rightarrow> fetch_result" where
  "text_response t = Response True (Some \<lparr>candidates =
     Some [\<lparr>candidate_content = Some \<lparr>parts = Some [\<lparr>part_text = Some t\<rparr>]\<rparr>\<rparr>]\<rparr>)"

definition scenario_app :: app where
  "scenario_app = \<lparr>store = [], userId = Some ''u1'', userProfile = None, editingMeal = None,
     isAddFoodModalOpen = False, aiResult = Primitive False, isLoading = False, alerts = []\<rparr>"

definition scenario_form :: "string \<Rightarrow> formData" where
  "scenario_form g = \<lparr>height = ''175'', weight = ''70'', age = ''30'', gender = ''male'',
     activityLevel = ''sedentary'', goal = g\<rparr>"

text \<open>A meal of no calories with \<open>q\<close> grams of fat, \<open>q\<close> a decimal literal.\<close>

definition snack :: "rat \<Rightarrow> foodData" where
  "snack q = \<lparr>name = Some ''snack'', calories = Some (Fin 0), carbs = Some (Fin 0),
     protein = Some (Fin 0), fat = Some (lit q)\<rparr>"

text \<open>
  A store with the profile, a meal of day 0, a meal of the next day and a daily record of
  the user \<open>u1\<close>, and a meal of another user.
\<close>

definition scenario_store :: store where
  "scenario_store =
     [(ProfilePath ''u1'', ProfileDoc (formData.extend (scenario_form ''maintain'')
         (profile.fields (Fin 2035) (Fin 204) (Fin 153) (Fin 68) 0))),
      (MealPath ''u1'' ''m1'', MealDoc (foodData.extend (snack 0.1) (meal.fields 0))),
      (MealPath ''u2'' ''m1'', MealDoc (foodData.extend (snack 0.1) (meal.fields 86400000))),
      (MealPath ''u1'' ''m2'', MealDoc (foodData.extend (snack 0.2) (meal.fields 86400000))),
      (DailyStatsPath ''u1'' ''2024-01-01'', DailyStatsDoc (Fin 3))]"


section \<open>Properties of the arithmetic\<close>

subsection \<open>Binary exponents\<close>


lemma ilog2_bounds: "0 < n \<Longrightarrow> 2 ^ ilog2 n \<le> n \<and> n < 2 * 2 ^ ilog2 n"
proof (induction n rule: ilog2.induct)
  case (1 n)
  show ?case
  proof (cases "n < 2")
    case True
    with 1(2) have "n = 1" by simp
    then show ?thesis by (simp add: ilog2.simps)
  next
    case False
    then have pos: "0 < n div 2" by simp
    from 1(1) [OF False pos]
    have IH: "2 ^ ilog2 (n div 2) \<le> n div 2 \<and> n div 2 < 2 * 2 ^ ilog2 (n div 2)" .
    have eq: "ilog2 n = Suc (ilog2 (n div 2))"
      using False by (subst ilog2.simps) simp
    from IH show ?thesis unfolding eq by auto
  qed
qed

lemma two_powi_mono: "m \<le> n \<Longrightarrow> (2::rat) powi m \<le> 2 powi n"
  by (rule power_int_increasing) simp_all

lemma two_powi_less: "m < n \<Longrightarrow> (2::rat) powi m < 2 powi n"
  by (rule power_int_strict_increasing) simp_all

lemma two_powi_less_cancel: "(2::rat) powi m < 2 powi n \<Longrightarrow> m < n"
  using two_powi_mono [of n m] by (cases "m < n") auto

lemma ratio_bounds:
  fixes n d :: nat
  assumes n: "0 < n" and d: "0 < d"
  defines "k \<equiv> int (ilog2 n) - int (ilog2 d)"
  shows "2 powi (k - 1) \<le> (of_nat n / of_nat d :: rat)"
    and "(of_nat n / of_nat d :: rat) < 2 powi (k + 1)"
proof -
  let ?bn = "ilog2 n" and ?bd = "ilog2 d"
  from ilog2_bounds [OF n]
  have "(of_nat (2 ^ ?bn) :: rat) \<le> of_nat n" "(of_nat n :: rat) < of_nat (2 * 2 ^ ?bn)"
    by (simp_all only: of_nat_le_iff of_nat_less_iff)
  then have n1: "(2::rat) ^ ?bn \<le> of_nat n" and n2: "(of_nat n :: rat) < 2 * 2 ^ ?bn"
    by simp_all
  from ilog2_bounds [OF d]
  have "(of_nat (2 ^ ?bd) :: rat) \<le> of_nat d" "(of_nat d :: rat) < of_nat (2 * 2 ^ ?bd)"
    by (simp_all only: of_nat_le_iff of_nat_less_iff)
  then have d1: "(2::rat) ^ ?bd \<le> of_nat d" and d2: "(of_nat d :: rat) < 2 * 2 ^ ?bd"
    by simp_all
  have dpos: "(0::rat) < of_nat d" using d by simp
  have e1: "(2::rat) powi (k - 1) = 2 ^ ?bn / (2 * 2 ^ ?bd)"
    unfolding k_def by (simp add: power_int_diff)
  have e2: "(2::rat) powi (k + 1) = (2 * 2 ^ ?bn) / 2 ^ ?bd"
    unfolding k_def by (simp add: power_int_diff power_int_add)
  have "(2::rat) ^ ?bn / (2 * 2 ^ ?bd) \<le> of_nat n / of_nat d"
    using n1 d2 dpos by (intro frac_le) auto
  then show "2 powi (k - 1) \<le> (of_nat n / of_nat d :: rat)" by (simp only: e1)
  have "(of_nat n :: rat) / of_nat d < (2 * 2 ^ ?bn) / 2 ^ ?bd"
    using n2 d1 dpos by (intro frac_less) auto
  then show "(of_nat n / of_nat d :: rat) < 2 powi (k + 1)" by (simp only: e2)
qed

lemma flog2_bounds:
  assumes "0 < a"
  shows "2 powi flog2 a \<le> a \<and> a < 2 powi (flog2 a + 1)"
proof -
  obtain n d where qd: "quotient_of a = (n, d)" by (cases "quotient_of a")
  then have dpos: "0 < d" and a: "a = of_int n / of_int d"
    by (auto dest: quotient_of_denom_pos quotient_of_div)
  with assms have npos: "0 < n" by (simp add: zero_less_divide_iff)
  define k where "k = int (ilog2 (nat n)) - int (ilog2 (nat d))"
  have a': "a = of_nat (nat n) / of_nat (nat d)"
    using a npos dpos by simp
  have lo: "2 powi (k - 1) \<le> a" and hi: "a < 2 powi (k + 1)"
    using ratio_bounds [of "nat n" "nat d"] npos dpos unfolding k_def a' by simp_all
  have f: "flog2 a = (if a < 2 powi k then k - 1 else k)"
    by (simp add: flog2_def qd k_def Let_def)
  show ?thesis
    using lo hi by (auto simp: f)
qed

lemma flog2_unique:
  assumes "0 < a" "2 powi j \<le> a" "a < 2 powi (j + 1)"
  shows "flog2 a = j"
proof -
  from flog2_bounds [OF assms(1)]
  have b: "2 powi flog2 a \<le> a" "a < 2 powi (flog2 a + 1)" by simp_all
  from b(1) assms(3) have "(2::rat) powi flog2 a < 2 powi (j + 1)" by simp
  then have 1: "flog2 a < j + 1" by (rule two_powi_less_cancel)
  from assms(2) b(2) have "(2::rat) powi j < 2 powi (flog2 a + 1)" by simp
  then have 2: "j < flog2 a + 1" by (rule two_powi_less_cancel)
  from 1 2 show ?thesis by simp
qed

lemma flog2_frac:
  fixes n d :: nat
  assumes "0 < n" "0 < d"
  shows "flog2 (of_nat n / of_nat d) =
    (let k = int (ilog2 n) - int (ilog2 d)
     in if (of_nat n / of_nat d :: rat) < 2 powi k then k - 1 else k)"
proof -
  define k where "k = int (ilog2 n) - int (ilog2 d)"
  have pos: "(0::rat) < of_nat n / of_nat d" using assms by simp
  have lo: "2 powi (k - 1) \<le> (of_nat n / of_nat d :: rat)"
    and hi: "(of_nat n / of_nat d :: rat) < 2 powi (k + 1)"
    using ratio_bounds [OF assms] unfolding k_def by simp_all
  show ?thesis
  proof (cases "(of_nat n / of_nat d :: rat) < 2 powi k")
    case True
    with lo have "flog2 (of_nat n / of_nat d) = k - 1"
      by (intro flog2_unique [OF pos]) simp_all
    with True show ?thesis by (simp add: k_def Let_def)
  next
    case False
    with hi have "flog2 (of_nat n / of_nat d) = k"
      by (intro flog2_unique [OF pos]) simp_all
    with False show ?thesis by (simp add: k_def Let_def)
  qed
qed

subsection \<open>round_even\<close>

lemma round_even_of_int: "round_even (of_int z) = z"
  by (simp add: round_even_def)

lemma round_even_cases: "round_even x = \<lfloor>x\<rfloor> \<or> round_even x = \<lfloor>x\<rfloor> + 1 \<and> x \<noteq> of_int \<lfloor>x\<rfloor>"
  by (auto simp: round_even_def Let_def)

lemma round_even_nonneg: "0 \<le> x \<Longrightarrow> 0 \<le> round_even x"
  using round_even_cases [of x] by (auto simp: zero_le_floor)

lemma round_even_le: 
  assumes "x \<le> of_int z" shows "round_even x \<le> z"
proof -
  have fl: "\<lfloor>x\<rfloor> \<le> z" using assms by (simp add: floor_le_iff)
  show ?thesis
  proof (cases "round_even x = \<lfloor>x\<rfloor>")
    case True
    with fl show ?thesis by simp
  next
    case False
    with round_even_cases [of x] have r: "round_even x = \<lfloor>x\<rfloor> + 1" and ne: "x \<noteq> of_int \<lfloor>x\<rfloor>"
      by auto
    have "\<lfloor>x\<rfloor> \<noteq> z"
    proof
      assume "\<lfloor>x\<rfloor> = z"
      then have "of_int z \<le> x" by (metis of_int_floor_le)
      with assms have "x = of_int z" by simp
      with ne show False by simp
    qed
    with fl r show ?thesis by simp
  qed
qed

subsection \<open>round64\<close>

lemma round64_repr:
  assumes m: "0 < m" "m \<le> 2 ^ 53" and e: "- 1074 \<le> e"
    and r: "r = of_int m * 2 powi e" and ov: "r < 2 powi 1024"
  shows "round64 r = Fin r"
proof -
  have rpos: "0 < r" using m r by simp
  define f' where "f' = flog2 r"
  define e' where "e' = max (f' - 52) (- 1074)"
  from flog2_bounds [OF rpos] have lo: "2 powi f' \<le> r" and hi: "r < 2 powi (f' + 1)"
    by (simp_all add: f'_def)
  have mr: "(of_int m :: rat) \<le> 2 ^ 53"
    using m(2) by (metis of_int_le_iff of_int_numeral of_int_power)
  have rle: "r \<le> 2 powi (e + 53)"
  proof -
    have "r \<le> 2 ^ 53 * 2 powi e" unfolding r using mr by (intro mult_right_mono) simp_all
    also have "\<dots> = 2 powi (e + 53)" by (simp add: power_int_add)
    finally show ?thesis .
  qed
  have key: "of_int (round_even (r / 2 powi e')) * 2 powi e' = r"
  proof (cases "e' \<le> e")
    case True
    then have "r / 2 powi e' = of_int m * 2 powi (e - e')"
      by (simp add: r power_int_diff)
    also have "\<dots> = of_int (m * 2 ^ nat (e - e'))"
      using True by (simp add: power_int_def)
    finally have x: "r / 2 powi e' = of_int (m * 2 ^ nat (e - e'))" .
    have "of_int (round_even (r / 2 powi e')) * 2 powi e' = (r / 2 powi e') * 2 powi e'"
      unfolding x round_even_of_int ..
    then show ?thesis by simp
  next
    case False
    then have e'gt: "e < e'" by simp
    with e have e'eq: "e' = f' - 52" unfolding e'_def by linarith
    with e'gt have "e + 53 \<le> f'" by simp
    then have "(2::rat) powi (e + 53) \<le> 2 powi f'" by (rule two_powi_mono)
    with lo rle have req: "r = 2 powi (e + 53)" by simp
    have "f' = e + 53"
      unfolding f'_def by (rule flog2_unique [OF rpos]) (simp_all add: req two_powi_less two_powi_mono)
    with e'eq have e'1: "e' = e + 1" by simp
    have "r / 2 powi e' = 2 powi 52"
      unfolding req e'1 by (simp flip: power_int_diff)
    also have "\<dots> = of_int (2 ^ 52)" by simp
    finally have x: "r / 2 powi e' = of_int (2 ^ 52)" .
    have "of_int (round_even (r / 2 powi e')) * 2 powi e' = (r / 2 powi e') * 2 powi e'"
      unfolding x round_even_of_int ..
    then show ?thesis by simp
  qed
  show ?thesis
    using rpos ov key by (simp add: round64_def Let_def f'_def [symmetric] e'_def [symmetric])
qed

lemma mantissa_bounds:
  assumes "0 < a" and e: "e = max (flog2 a - 52) (- 1074)"
  shows "0 \<le> round_even (a / 2 powi e)" and "round_even (a / 2 powi e) \<le> 2 ^ 53"
proof -
  show "0 \<le> round_even (a / 2 powi e)"
    using assms(1) by (intro round_even_nonneg) simp
  from flog2_bounds [OF assms(1)] have "a < 2 powi (flog2 a + 1)" by simp
  also have "\<dots> \<le> 2 powi (e + 53)"
    unfolding e by (intro two_powi_mono) simp
  also have "\<dots> = 2 ^ 53 * 2 powi e" by (simp add: power_int_add)
  finally have "a / 2 powi e < 2 ^ 53" by (simp add: divide_less_eq)
  then have "a / 2 powi e \<le> of_int (2 ^ 53)" by simp
  then show "round_even (a / 2 powi e) \<le> 2 ^ 53" by (rule round_even_le)
qed

lemma round64_minus: "round64 (- q) = jsneg (round64 q)"
  by (simp add: round64_def Let_def)

lemma round64_not_NaN: "round64 q \<noteq> NaN"
  by (simp add: round64_def Let_def)

lemma round64_idem:
  assumes "round64 q = Fin r"
  shows "round64 r = Fin r"
proof (cases "q = 0")
  case True
  with assms show ?thesis by (simp add: round64_def)
next
  case False
  define a where "a = \<bar>q\<bar>"
  define e where "e = max (flog2 a - 52) (- 1074)"
  define m where "m = round_even (a / 2 powi e)"
  define r0 :: rat where "r0 = of_int m * 2 powi e"
  have apos: "0 < a" using False by (simp add: a_def)
  have mb: "0 \<le> m" "m \<le> 2 ^ 53"
    using mantissa_bounds [OF apos e_def] by (simp_all add: m_def)
  have unf: "round64 q = (if 2 powi 1024 \<le> r0 then (if 0 < q then PInf else NInf)
                          else Fin (sgn q * r0))"
    using False by (simp add: round64_def Let_def a_def e_def m_def r0_def)
  with assms have ov: "r0 < 2 powi 1024" and r: "r = sgn q * r0"
    by (auto split: if_splits)
  have fixp: "round64 r0 = Fin r0"
  proof (cases "m = 0")
    case True
    then show ?thesis by (simp add: r0_def round64_def)
  next
    case False
    with mb have "0 < m" by simp
    then show ?thesis
      by (rule round64_repr [OF _ mb(2) _ r0_def ov]) (simp add: e_def)
  qed
  show ?thesis
  proof (cases "0 < q")
    case True
    then show ?thesis using fixp by (simp add: r)
  next
    case False
    with \<open>q \<noteq> 0\<close> have "r = - r0" by (simp add: r)
    then show ?thesis using fixp by (simp add: round64_minus)
  qed
qed

lemma round64_finite:
  assumes "q \<noteq> 0" and b: "\<bar>q\<bar> < 2 powi b" "b \<le> 1023"
  shows "round64 q =
     (let a = \<bar>q\<bar>; e = max (flog2 a - 52) (- 1074)
      in Fin (sgn q * (of_int (round_even (a / 2 powi e)) * 2 powi e)))"
proof -
  define a where "a = \<bar>q\<bar>"
  define e where "e = max (flog2 a - 52) (- 1074)"
  define m where "m = round_even (a / 2 powi e)"
  have apos: "0 < a" using assms(1) by (simp add: a_def)
  have mb: "m \<le> 2 ^ 53"
    using mantissa_bounds [OF apos e_def] by (simp_all add: m_def)
  from flog2_bounds [OF apos] b(1) have "(2::rat) powi flog2 a < 2 powi b"
    by (simp add: a_def)
  then have "flog2 a < b" by (rule two_powi_less_cancel)
  with b(2) have eb: "e + 53 \<le> 1023" by (simp add: e_def)
  have "(of_int m :: rat) \<le> 2 ^ 53"
    using mb by (metis of_int_le_iff of_int_numeral of_int_power)
  then have "of_int m * 2 powi e \<le> 2 ^ 53 * (2::rat) powi e"
    by (intro mult_right_mono) simp_all
  also have "\<dots> = 2 powi (e + 53)" by (simp add: power_int_add)
  also have "\<dots> \<le> 2 powi 1023" using eb by (rule two_powi_mono)
  also have "\<dots> < (2::rat) powi 1024" by (rule two_powi_less) simp
  finally have "\<not> 2 powi 1024 \<le> of_int m * (2::rat) powi e" by simp
  then show ?thesis
    using assms(1) by (simp add: round64_def Let_def a_def e_def m_def)
qed

lemma round64_of_int:
  assumes "\<bar>n\<bar> \<le> 2 ^ 53"
  shows "round64 (of_int n) = Fin (of_int n)"
proof -
  have pos: "round64 (of_int k) = Fin (of_int k)" if "0 < k" "k \<le> 2 ^ 53" for k
  proof (rule round64_repr [OF that, of 0])
    have "(of_int k :: rat) \<le> of_int (2 ^ 53)" using that(2) by (simp only: of_int_le_iff)
    also have "\<dots> = 2 powi 53" by simp
    also have "\<dots> < (2::rat) powi 1024" by (rule two_powi_less) simp
    finally show "(of_int k :: rat) < 2 powi 1024" .
  qed simp_all
  consider "n = 0" | "0 < n" | "n < 0" by linarith
  then show ?thesis
  proof cases
    case 1
    then show ?thesis by (simp add: round64_def)
  next
    case 2
    with assms show ?thesis by (intro pos) simp_all
  next
    case 3
    with assms have "round64 (of_int (- n)) = Fin (of_int (- n))" by (intro pos) simp_all
    then show ?thesis using round64_minus [of "of_int (- n)"] by simp
  qed
qed

subsection \<open>Nearest value\<close>

lemma round_even_nearest: "\<bar>x - of_int (round_even x)\<bar> \<le> \<bar>x - of_int k\<bar>"
proof -
  define fl where "fl = \<lfloor>x\<rfloor>"
  define fr where "fr = x - of_int fl"
  have fr: "0 \<le> fr" "fr < 1" unfolding fr_def fl_def by linarith+
  have far: "fr \<le> \<bar>x - of_int k\<bar>" if "k \<le> fl"
  proof -
    from that have "(of_int k :: rat) \<le> of_int fl" by simp
    then show ?thesis unfolding fr_def by linarith
  qed
  have near: "1 - fr \<le> \<bar>x - of_int k\<bar>" if "fl < k"
  proof -
    from that have "fl + 1 \<le> k" by simp
    then have "(of_int (fl + 1) :: rat) \<le> of_int k" by (simp only: of_int_le_iff)
    then have "of_int fl + 1 \<le> (of_int k :: rat)" by simp
    then show ?thesis unfolding fr_def by linarith
  qed
  have "round_even x = fl \<and> fr \<le> 1 / 2 \<or> round_even x = fl + 1 \<and> 1 / 2 \<le> fr"
    by (auto simp: round_even_def Let_def fl_def fr_def)
  then consider (lo) "round_even x = fl" "fr \<le> 1 / 2" | (hi) "round_even x = fl + 1" "1 / 2 \<le> fr"
    by blast
  then show ?thesis
  proof cases
    case lo
    have d: "\<bar>x - of_int (round_even x)\<bar> = fr"
      unfolding lo(1) using fr by (simp add: fr_def)
    show ?thesis
    proof (cases "k \<le> fl")
      case True
      from far [OF True] show ?thesis by (simp only: d)
    next
      case False
      then have "fl < k" by simp
      from near [OF this] lo(2) show ?thesis unfolding d by linarith
    qed
  next
    case hi
    have "x - of_int (fl + 1) = fr - 1" by (simp add: fr_def)
    then have d: "\<bar>x - of_int (round_even x)\<bar> = 1 - fr"
      unfolding hi(1) using fr by simp
    show ?thesis
    proof (cases "k \<le> fl")
      case True
      from far [OF True] hi(2) show ?thesis unfolding d by linarith
    next
      case False
      then have "fl < k" by simp
      from near [OF this] show ?thesis by (simp only: d)
    qed
  qed
qed

text \<open>
  \<open>round64\<close> rounds to a nearest binary64 value: no number with a significand below
  \<open>2^53\<close> and an exponent of at least \<open>-1074\<close> is closer to \<open>q\<close>.
\<close>

lemma round64_nearest:
  assumes r: "round64 q = Fin r"
    and d: "d = of_int m' * 2 powi e'" "\<bar>m'\<bar> < 2 ^ 53" "- 1074 \<le> e'"
  shows "\<bar>q - r\<bar> \<le> \<bar>q - d\<bar>"
proof (cases "q = 0")
  case True
  with r show ?thesis by (simp add: round64_def)
next
  case False
  define a where "a = \<bar>q\<bar>"
  define e where "e = max (flog2 a - 52) (- 1074)"
  define x where "x = a / 2 powi e"
  define m where "m = round_even x"
  define r0 :: rat where "r0 = of_int m * 2 powi e"
  define d' where "d' = \<bar>d\<bar>"
  have apos: "0 < a" using False by (simp add: a_def)
  have p: "(0::rat) < 2 powi e" by simp
  have ax: "a = x * 2 powi e" by (simp add: x_def)
  have unf: "round64 q = (if 2 powi 1024 \<le> r0 then (if 0 < q then PInf else NInf)
                          else Fin (sgn q * r0))"
    using False by (simp add: round64_def Let_def a_def e_def m_def r0_def x_def)
  with r have req: "r = sgn q * r0" by (auto split: if_splits)
  have mnn: "0 \<le> m" using apos unfolding m_def x_def by (intro round_even_nonneg) simp
  have r0nn: "0 \<le> r0" using mnn by (simp add: r0_def)
  have qa: "q = sgn q * a" by (simp add: a_def sgn_if)
  have "q - r = sgn q * (a - r0)" unfolding req by (subst qa) (simp add: algebra_simps)
  then have lhs: "\<bar>q - r\<bar> = \<bar>a - r0\<bar>" using False by (simp add: abs_mult)
  have rhs: "\<bar>a - d'\<bar> \<le> \<bar>q - d\<bar>"
    unfolding a_def d'_def by (rule abs_triangle_ineq3)
  have diff: "\<bar>a - of_int k * 2 powi e\<bar> = \<bar>x - of_int k\<bar> * 2 powi e" for k
  proof -
    have "a - of_int k * 2 powi e = (x - of_int k) * 2 powi e"
      unfolding ax by (simp add: algebra_simps)
    then show ?thesis by (simp add: abs_mult)
  qed
  have mult: "\<bar>a - r0\<bar> \<le> \<bar>a - of_int k * 2 powi e\<bar>" for k
    unfolding r0_def diff m_def using round_even_nearest [of x k] by simp
  have d'eq: "d' = of_int \<bar>m'\<bar> * 2 powi e'"
    by (simp add: d'_def d(1) abs_mult)
  have "\<bar>a - r0\<bar> \<le> \<bar>a - d'\<bar>"
  proof (cases "e \<le> e'")
    case True
    have "d' = of_int \<bar>m'\<bar> * (2 powi (e' - e) * 2 powi e)"
      unfolding d'eq by (simp flip: power_int_add)
    also have "2 powi (e' - e) = (of_int (2 ^ nat (e' - e)) :: rat)"
      using True by (simp add: power_int_def)
    finally have "d' = of_int (\<bar>m'\<bar> * 2 ^ nat (e' - e)) * 2 powi e"
      by simp
    then show ?thesis using mult [of "\<bar>m'\<bar> * 2 ^ nat (e' - e)"] by simp
  next
    case False
    then have lt: "e' < e" by simp
    with d(3) have en: "e = flog2 a - 52" unfolding e_def by linarith
    have "(of_int \<bar>m'\<bar> :: rat) < of_int (2 ^ 53)" using d(2) by (simp only: of_int_less_iff)
    then have "(of_int \<bar>m'\<bar> :: rat) < 2 ^ 53" by simp
    then have "d' < 2 ^ 53 * 2 powi e'"
      unfolding d'eq by (intro mult_strict_right_mono) simp_all
    also have "\<dots> = 2 powi (e' + 53)" by (simp add: power_int_add)
    also have "\<dots> \<le> 2 powi (e + 52)" using lt by (intro two_powi_mono) simp
    finally have dlt: "d' < 2 powi (e + 52)" .
    have lo: "2 powi (e + 52) \<le> a"
      using flog2_bounds [OF apos] by (simp add: en)
    have "\<bar>a - r0\<bar> \<le> \<bar>a - of_int (2 ^ 52) * 2 powi e\<bar>" by (rule mult)
    also have "of_int (2 ^ 52) * 2 powi e = (2::rat) powi (e + 52)"
      by (simp add: power_int_add)
    also have "\<bar>a - 2 powi (e + 52)\<bar> \<le> \<bar>a - d'\<bar>"
      using lo dlt by linarith
    finally show ?thesis .
  qed
  with lhs rhs show ?thesis by linarith
qed

subsection \<open>Evaluation at numerals\<close>

lemma ilog2_numeral:
  "ilog2 (numeral k) = (if numeral k < (2::nat) then 0 else Suc (ilog2 (numeral k div 2)))"
  by (rule ilog2.simps)

lemma ilog2_01: "ilog2 0 = 0" "ilog2 1 = 0" "ilog2 (Suc 0) = 0"
  by (simp_all add: ilog2.simps)

lemma flog2_numeral:
  "flog2 (numeral n / numeral d) =
    (let k = int (ilog2 (numeral n)) - int (ilog2 (numeral d))
     in if (numeral n / numeral d :: rat) < 2 powi k then k - 1 else k)"
  "flog2 (numeral n) =
    (let k = int (ilog2 (numeral n))
     in if (numeral n :: rat) < 2 powi k then k - 1 else k)"
  "flog2 (1 / numeral d) =
    (let k =  - int (ilog2 (numeral d))
     in if (1 / numeral d :: rat) < 2 powi k then k - 1 else k)"
  "flog2 1 = 0"
  using flog2_frac [of "numeral n" "numeral d"] flog2_frac [of "numeral n" 1]
    flog2_frac [of 1 "numeral d"] flog2_frac [of 1 1]
  by (simp_all add: ilog2_01)

lemma floor_rat_numeral:
  "\<lfloor>numeral a / numeral b :: rat\<rfloor> = numeral a div numeral b"
  "\<lfloor>1 / numeral b :: rat\<rfloor> = 1 div numeral b"
  by (metis floor_divide_of_int_eq of_int_numeral, metis floor_divide_of_int_eq of_int_numeral of_int_1)

lemma round64_eval:
  "q \<noteq> 0 \<Longrightarrow> \<bar>q\<bar> < 18446744073709551616 \<Longrightarrow> round64 q =
     (let a = \<bar>q\<bar>; e = max (flog2 a - 52) (- 1074)
      in Fin (sgn q * (of_int (round_even (a / 2 powi e)) * 2 powi e)))"
  by (rule round64_finite [where b = 64]) simp_all

lemmas js_eval = round64_eval flog2_numeral ilog2_numeral ilog2_01 floor_rat_numeral
  round_even_def Let_def lit_def


section \<open>Calorie and macro targets\<close>

lemma getProfile_setDoc:
  "getProfile (s\<lparr>store := setDoc st (ProfilePath u) (ProfileDoc p), userProfile := x\<rparr>) u = Some p"
  by (simp add: getProfile_def setDoc_def update_conv')

lemma parse_digits_scenario:
  "parse_digits ''175'' = Fin 175" "parse_digits ''70'' = Fin 70" "parse_digits ''30'' = Fin 30"
  by (simp_all add: parse_digits_def is_digit_def digit_value_def js_eval)

lemma scenario_bmr:
  "calculateBMR (Fin 70) (Fin 175) (Fin 30) ''male'' = Fin (7457622333344187 / 4398046511104)"
  by (simp add: calculateBMR_def js_eval)

lemma scenario_tdee:
  "calculateTDEE (Fin (7457622333344187 / 4398046511104)) ''sedentary'' = Fin (279660837500407 / 137438953472)"
  by (simp add: calculateTDEE_def get_property_def activityMultipliers_def or_else_def js_eval)

text \<open>
  The two Numbers above are the basal rate and the daily expenditure of scenario 1:
  1695.667 and 2034.8004, up to the rounding of the arithmetic.
\<close>

lemma scenario_values_near:
  "\<bar>7457622333344187 / 4398046511104 - 1695.667\<bar> < (1 / 10 ^ 9 :: rat)"
  "\<bar>279660837500407 / 137438953472 - 2034.8004\<bar> < (1 / 10 ^ 9 :: rat)"
  by simp_all

lemma scenario_maintain:
  "Math_round (adjustCaloriesForGoal (Fin (279660837500407 / 137438953472)) ''maintain'') = Fin 2035"
  by (simp add: adjustCaloriesForGoal_def floor_rat_numeral)

lemma scenario_lose:
  "Math_round (adjustCaloriesForGoal (Fin (279660837500407 / 137438953472)) ''lose'') = Fin 1730"
  by (simp add: adjustCaloriesForGoal_def js_eval)

lemma scenario_macros:
  "getMacroTargets (Fin 2035) = \<lparr>macros.carbs = Fin 204, protein = Fin 153, fat = Fin 68\<rparr>"
  by (simp add: getMacroTargets_def js_eval)

lemma scenario_target_maintain:
  "calorieTarget_of scenario_env (scenario_form ''maintain'') = Fin 2035"
  by (simp add: calorieTarget_of_def scenario_env_def scenario_form_def parse_digits_scenario
      scenario_bmr scenario_tdee scenario_maintain)

lemma scenario_target_lose:
  "calorieTarget_of scenario_env (scenario_form ''lose'') = Fin 1730"
  by (simp add: calorieTarget_of_def scenario_env_def scenario_form_def parse_digits_scenario
      scenario_bmr scenario_tdee scenario_lose)

lemma setup_accepted:
  assumes "height fd \<noteq> []" "weight fd \<noteq> []" "age fd \<noteq> []"
    and "currentUser env = Some u" "write_ok env"
  shows "getProfile (ProfileSetup_handleSubmit env fd s) u =
     Some (formData.extend fd
        (profile.fields (calorieTarget_of env fd)
           (macros.carbs (getMacroTargets (calorieTarget_of env fd)))
           (macros.protein (getMacroTargets (calorieTarget_of env fd)))
           (macros.fat (getMacroTargets (calorieTarget_of env fd))) (now env)))"
  using assms
  by (simp add: ProfileSetup_handleSubmit_def not_str_def Let_def getProfile_setDoc)

subsection \<open>Code and specification of the target calculator\<close>

lemma calculateBMR_computeBMR: "calculateBMR w h a g = computeBMR w h a g"
  by (simp add: calculateBMR_def computeBMR_def)

lemma adjustCaloriesForGoal_adjustForGoal: "adjustCaloriesForGoal t g = adjustForGoal t g"
  by (simp add: adjustCaloriesForGoal_def adjustForGoal_def)

lemma calculateTDEE_computeTDEE:
  assumes "k \<notin> set object_prototype_names"
  shows "calculateTDEE bmr k = computeTDEE bmr k"
  using assms
  by (simp add: calculateTDEE_def computeTDEE_def multiplier_def get_property_def
      activityMultipliers_def or_else_def js_eval)

lemma digit_value_le: "is_digit c \<Longrightarrow> digit_value c \<le> 9"
  unfolding is_digit_def digit_value_def by arith

lemma foldl_digits_less:
  "list_all is_digit f \<Longrightarrow>
     foldl (\<lambda>n c. 10 * n + digit_value c) a f < (a + 1) * 10 ^ length f"
proof (induction f arbitrary: a)
  case Nil
  then show ?case by simp
next
  case (Cons c f)
  then have c: "digit_value c \<le> 9" and f: "list_all is_digit f"
    by (simp_all add: digit_value_le)
  have "foldl (\<lambda>n c. 10 * n + digit_value c) (10 * a + digit_value c) f
      < (10 * a + digit_value c + 1) * 10 ^ length f"
    by (rule Cons.IH [OF f])
  also have "\<dots> \<le> (10 * (a + 1)) * 10 ^ length f"
    using c by (intro mult_right_mono) simp_all
  finally show ?case by (simp add: algebra_simps)
qed

lemma digits_value_less: "list_all is_digit f \<Longrightarrow> digits_value f < 10 ^ length f"
  using foldl_digits_less [of f 0] by (simp add: digits_value_def)

lemma floor_fraction:
  fixes i F n :: nat
  assumes "F < 10 ^ n"
  shows "\<lfloor>(of_nat i :: rat) + of_nat F / 10 ^ n\<rfloor> = int i"
proof -
  have "(of_nat F :: rat) / 10 ^ n = of_nat F / of_nat (10 ^ n)" by simp
  then have "\<lfloor>(of_nat F :: rat) / 10 ^ n\<rfloor> = int (F div 10 ^ n)"
    by (simp only: floor_divide_of_nat_eq)
  with assms have z: "\<lfloor>(of_nat F :: rat) / 10 ^ n\<rfloor> = 0" by simp
  have "\<lfloor>(of_nat i :: rat) + of_nat F / 10 ^ n\<rfloor> = int i + \<lfloor>(of_nat F :: rat) / 10 ^ n\<rfloor>"
    by (metis floor_add_int add.commute of_int_of_nat_eq)
  with z show ?thesis by simp
qed

lemma floor_numeral_value:
  assumes "decimal s"
  shows "\<lfloor>numeral_value s\<rfloor> = int (digits_value (takeWhile is_digit s))"
proof (cases "dropWhile is_digit s")
  case Nil
  show ?thesis unfolding numeral_value_def Nil by simp
next
  case (Cons c f)
  with assms have "list_all is_digit f" by (simp add: decimal_def)
  then have "digits_value f < 10 ^ length f" by (rule digits_value_less)
  then show ?thesis unfolding numeral_value_def Cons by (simp only: list.case floor_fraction)
qed

lemma parseInt_decimal_floor:
  "decimal s \<Longrightarrow> parseInt_decimal s = lit (of_int \<lfloor>numeral_value s\<rfloor>)"
  by (simp add: parseInt_decimal_def lit_def floor_numeral_value)

lemma parseFloat_decimal_value: "decimal s \<Longrightarrow> parseFloat_decimal s = lit (numeral_value s)"
  by (simp add: parseFloat_decimal_def lit_def)

lemma decimal_not_empty: "decimal s \<Longrightarrow> s \<noteq> []"
  by (auto simp: decimal_def)

lemma calorieTarget_of_decimal:
  assumes "decimal (height fd)" "decimal (weight fd)" "decimal (age fd)"
    and "activityLevel fd \<notin> set object_prototype_names"
    and "parseFloat env = parseFloat_decimal" "parseInt env = parseInt_decimal"
  shows "calorieTarget_of env fd =
     Math_round (adjustForGoal
       (computeTDEE
          (computeBMR (lit (numeral_value (weight fd))) (lit (numeral_value (height fd)))
             (lit (of_int \<lfloor>numeral_value (age fd)\<rfloor>)) (gender fd))
          (activityLevel fd))
       (goal fd))"
  using assms
  by (simp add: calorieTarget_of_def Let_def calculateBMR_computeBMR
      adjustCaloriesForGoal_adjustForGoal calculateTDEE_computeTDEE
      parseInt_decimal_floor parseFloat_decimal_value)

lemma numeral_scenario:
  "parseFloat_decimal ''175'' = Fin 175" "parseFloat_decimal ''70'' = Fin 70"
  "parseInt_decimal ''30'' = Fin 30" "parseInt_decimal ''30.9'' = Fin 30"
  by (simp_all add: parseFloat_decimal_def parseInt_decimal_def decimal_def numeral_value_def
      digits_value_def is_digit_def digit_value_def js_eval)

lemma numeral_target_maintain:
  "calorieTarget_of numeral_env (scenario_form ''maintain'') = Fin 2035"
  by (simp add: calorieTarget_of_def numeral_env_def scenario_env_def scenario_form_def
      numeral_scenario scenario_bmr scenario_tdee scenario_maintain)

lemma numeral_target_fractional_age:
  "calorieTarget_of numeral_env ((scenario_form ''maintain'')\<lparr>age := ''30.9''\<rparr>) = Fin 2035"
  by (simp add: calorieTarget_of_def numeral_env_def scenario_env_def scenario_form_def
      numeral_scenario scenario_bmr scenario_tdee scenario_maintain)

lemma formula_fractional_age:
  "Math_round (adjustForGoal
     (computeTDEE (computeBMR (lit 70) (lit 175) (lit 30.9) ''male'') ''sedentary'') ''maintain'')
   = Fin 2029"
  by (simp add: adjustForGoal_def computeTDEE_def computeBMR_def multiplier_def js_eval)

text \<open>
  Claim C1, as stated, fails: the code reads the age with \<^verbatim>\<open>parseInt\<close>. For the profile
  of scenario 1 with the age 30.9 the stored calorie target is 2035, as for the age 30,
  while \<open>round(adjustForGoal(computeTDEE(computeBMR(70, 175, 30.9, male), sedentary), maintain))\<close>
  is 2029.
\<close>

theorem C1_counterexample:
  "map_option calorieTarget
     (getProfile (ProfileSetup_handleSubmit numeral_env
        ((scenario_form ''maintain'')\<lparr>age := ''30.9''\<rparr>) scenario_app) ''u1'') = Some (Fin 2035)
   \<and> parseFloat numeral_env ''30.9'' = lit 30.9
   \<and> Math_round (adjustForGoal
        (computeTDEE (computeBMR (lit 70) (lit 175) (lit 30.9) ''male'') ''sedentary'')
        ''maintain'') = Fin 2029
   \<and> Fin 2035 \<noteq> Fin 2029"
proof -
  have "getProfile (ProfileSetup_handleSubmit numeral_env
        ((scenario_form ''maintain'')\<lparr>age := ''30.9''\<rparr>) scenario_app) ''u1'' =
      Some (formData.extend ((scenario_form ''maintain'')\<lparr>age := ''30.9''\<rparr>)
        (profile.fields (Fin 2035) (Fin 204) (Fin 153) (Fin 68) 0))"
    by (subst setup_accepted [where u = "''u1''"])
      (simp_all add: numeral_target_fractional_age scenario_macros,
       simp_all add: scenario_form_def scenario_env_def numeral_env_def)
  then have 1: "map_option calorieTarget
     (getProfile (ProfileSetup_handleSubmit numeral_env
        ((scenario_form ''maintain'')\<lparr>age := ''30.9''\<rparr>) scenario_app) ''u1'') = Some (Fin 2035)"
    by (simp add: formData.defs profile.defs)
  have 2: "parseFloat numeral_env ''30.9'' = lit 30.9"
    by (simp add: numeral_env_def parseFloat_decimal_def decimal_def numeral_value_def
        digits_value_def is_digit_def digit_value_def lit_def)
  from 1 2 formula_fractional_age show ?thesis by simp
qed

text \<open>
  Claim C1, amended. For every profile form whose height, weight and age are decimal
  numerals and whose activity level is not a name inherited from \<open>Object.prototype\<close>, with
  any gender and goal, when the write of the profile succeeds the stored calorie target is
  \<open>round(adjustForGoal(computeTDEE(computeBMR(weight, height, a, gender), activityLevel), goal))\<close>
  of the specification, where \<open>a\<close> is the whole part of the age. For the profile
  \<open>{height: 175, weight: 70, age: 30, gender: male, activityLevel: sedentary, goal: maintain}\<close>
  the stored targets are calorieTarget 2035, carbs 204, protein 153 and fat 68.
\<close>

theorem C1_persisted_calorie_target:
  assumes "decimal (height fd)" "decimal (weight fd)" "decimal (age fd)"
    and "activityLevel fd \<notin> set object_prototype_names"
    and "parseFloat env = parseFloat_decimal" "parseInt env = parseInt_decimal"
    and "currentUser env = Some u" "write_ok env"
  shows "map_option calorieTarget (getProfile (ProfileSetup_handleSubmit env fd s) u) =
      Some (Math_round (adjustForGoal
        (computeTDEE
           (computeBMR (lit (numeral_value (weight fd))) (lit (numeral_value (height fd)))
              (lit (of_int \<lfloor>numeral_value (age fd)\<rfloor>)) (gender fd))
           (activityLevel fd))
        (goal fd)))
    \<and> (let p = getProfile (ProfileSetup_handleSubmit numeral_env (scenario_form ''maintain'')
                  scenario_app) ''u1''
       in map_option calorieTarget p = Some (Fin 2035) \<and>
          map_option profile.carbs p = Some (Fin 204) \<and>
          map_option profile.protein p = Some (Fin 153) \<and>
          map_option profile.fat p = Some (Fin 68))"
proof
  have ne: "height fd \<noteq> []" "weight fd \<noteq> []" "age fd \<noteq> []"
    using assms(1-3) by (simp_all add: decimal_not_empty)
  have "getProfile (ProfileSetup_handleSubmit env fd s) u =
     Some (formData.extend fd
        (profile.fields (calorieTarget_of env fd)
           (macros.carbs (getMacroTargets (calorieTarget_of env fd)))
           (macros.protein (getMacroTargets (calorieTarget_of env fd)))
           (macros.fat (getMacroTargets (calorieTarget_of env fd))) (now env)))"
    using ne assms(7,8) by (rule setup_accepted)
  then have "map_option calorieTarget (getProfile (ProfileSetup_handleSubmit env fd s) u) =
      Some (calorieTarget_of env fd)"
    by (simp add: formData.defs profile.defs)
  then show "map_option calorieTarget (getProfile (ProfileSetup_handleSubmit env fd s) u) =
      Some (Math_round (adjustForGoal
        (computeTDEE
           (computeBMR (lit (numeral_value (weight fd))) (lit (numeral_value (height fd)))
              (lit (of_int \<lfloor>numeral_value (age fd)\<rfloor>)) (gender fd))
           (activityLevel fd))
        (goal fd)))"
    by (simp only: calorieTarget_of_decimal [OF assms(1-6)])
next
  have "getProfile (ProfileSetup_handleSubmit numeral_env (scenario_form ''maintain'')
          scenario_app) ''u1'' =
      Some (formData.extend (scenario_form ''maintain'')
        (profile.fields (Fin 2035) (Fin 204) (Fin 153) (Fin 68) 0))"
    by (subst setup_accepted [where u = "''u1''"])
      (simp_all add: numeral_target_maintain scenario_macros,
       simp_all add: scenario_form_def scenario_env_def numeral_env_def)
  then show "let p = getProfile (ProfileSetup_handleSubmit numeral_env (scenario_form ''maintain'')
                  scenario_app) ''u1''
       in map_option calorieTarget p = Some (Fin 2035) \<and>
          map_option profile.carbs p = Some (Fin 204) \<and>
          map_option profile.protein p = Some (Fin 153) \<and>
          map_option profile.fat p = Some (Fin 68)"
    by (simp add: formData.defs profile.defs)
qed

text \<open>
  Claim C1, witness: the theorem at the profile of scenario 1 with the age 30.9, whose
  whole part is 30; the formula of the specification at 70, 175 and 30 gives 2035.
\<close>

theorem C1_witness:
  "decimal ''175'' \<and> decimal ''70'' \<and> decimal ''30.9''
   \<and> ''sedentary'' \<notin> set object_prototype_names
   \<and> parseFloat numeral_env = parseFloat_decimal \<and> parseInt numeral_env = parseInt_decimal
   \<and> currentUser numeral_env = Some ''u1'' \<and> write_ok numeral_env
   \<and> \<lfloor>numeral_value ''30.9''\<rfloor> = 30
   \<and> map_option calorieTarget
       (getProfile (ProfileSetup_handleSubmit numeral_env
          ((scenario_form ''maintain'')\<lparr>age := ''30.9''\<rparr>) scenario_app) ''u1'')
     = Some (Math_round (adjustForGoal
         (computeTDEE (computeBMR (lit 70) (lit 175) (lit 30) ''male'') ''sedentary'')
         ''maintain''))
   \<and> Math_round (adjustForGoal
         (computeTDEE (computeBMR (lit 70) (lit 175) (lit 30) ''male'') ''sedentary'')
         ''maintain'') = Fin 2035"
proof -
  let ?fd = "(scenario_form ''maintain'')\<lparr>age := ''30.9''\<rparr>"
  have d: "decimal ''175''" "decimal ''70''" "decimal ''30.9''"
    by (simp_all add: decimal_def is_digit_def)
  have v: "numeral_value ''175'' = 175" "numeral_value ''70'' = 70"
    "\<lfloor>numeral_value ''30.9''\<rfloor> = 30"
    by (simp_all add: numeral_value_def digits_value_def is_digit_def digit_value_def
        floor_rat_numeral)
  have f: "height ?fd = ''175''" "weight ?fd = ''70''" "age ?fd = ''30.9''"
    "gender ?fd = ''male''" "activityLevel ?fd = ''sedentary''" "goal ?fd = ''maintain''"
    by (simp_all add: scenario_form_def)
  have h: "decimal (height ?fd)" "decimal (weight ?fd)" "decimal (age ?fd)"
    "activityLevel ?fd \<notin> set object_prototype_names"
    "parseFloat numeral_env = parseFloat_decimal" "parseInt numeral_env = parseInt_decimal"
    "currentUser numeral_env = Some ''u1''" "write_ok numeral_env"
    unfolding f using d
    by (simp_all add: numeral_env_def scenario_env_def object_prototype_names_def)
  have n: "Math_round (adjustForGoal
         (computeTDEE (computeBMR (lit 70) (lit 175) (lit 30) ''male'') ''sedentary'')
         ''maintain'') = Fin 2035"
    by (simp add: adjustForGoal_def computeTDEE_def computeBMR_def multiplier_def js_eval)
  from C1_persisted_calorie_target [OF h, of scenario_app]
  have "map_option calorieTarget
       (getProfile (ProfileSetup_handleSubmit numeral_env ?fd scenario_app) ''u1'')
     = Some (Math_round (adjustForGoal
         (computeTDEE (computeBMR (lit 70) (lit 175) (lit 30) ''male'') ''sedentary'')
         ''maintain''))"
    unfolding f v by simp
  with d h(4-8) v(3) n show ?thesis unfolding f by simp
qed

text \<open>
  Claim C2, as stated, fails: for the profile of scenario 1 with goal \<open>lose\<close> the computed
  calorie target is not 1729. (The basal rate of that profile is 1695.667 and its daily
  expenditure 2034.8004, not 2034.6.)
\<close>

theorem C2_counterexample:
  "calorieTarget_of scenario_env (scenario_form ''lose'') \<noteq> Fin 1729"
  by (simp add: scenario_target_lose)

text \<open>
  Claim C2, amended: for the profile \<open>{height: 175, weight: 70, age: 30, gender: male,
  activityLevel: sedentary, goal: lose}\<close> the computed calorie target, which is also the
  stored one, is \<open>round(2034.8004 \<times> 0.85) = 1730\<close>.
\<close>

theorem C2_lose_target:
  "calorieTarget_of scenario_env (scenario_form ''lose'') = Fin 1730 \<and>
   map_option calorieTarget
     (getProfile (ProfileSetup_handleSubmit scenario_env (scenario_form ''lose'') scenario_app)
        ''u1'') = Some (Fin 1730)"
proof -
  have "getProfile (ProfileSetup_handleSubmit scenario_env (scenario_form ''lose'')
          scenario_app) ''u1'' =
      Some (formData.extend (scenario_form ''lose'')
        (profile.fields (Fin 1730)
           (macros.carbs (getMacroTargets (Fin 1730)))
           (macros.protein (getMacroTargets (Fin 1730)))
           (macros.fat (getMacroTargets (Fin 1730))) 0))"
    by (subst setup_accepted [where u = "''u1''"])
      (simp_all add: scenario_target_lose, simp_all add: scenario_form_def scenario_env_def)
  then show ?thesis
    by (simp add: scenario_target_lose formData.defs profile.defs)
qed

text \<open>
  Claim C3. For every weight, height and age, \<open>calculateBMR\<close> returns
  \<open>88.362 + 13.397\<cdot>weight + 4.799\<cdot>height - 5.677\<cdot>age\<close> when the gender is exactly
  \<open>male\<close>, and \<open>447.593 + 9.247\<cdot>weight + 3.098\<cdot>height - 4.330\<cdot>age\<close> for every other
  gender, in the arithmetic of Numbers and in the order in which the source writes the
  terms; the function has no failing case.
\<close>

theorem C3_calculateBMR:
  "(g = ''male'' \<longrightarrow>
      calculateBMR w h a g =
        jssub (jsadd (jsadd (lit 88.362) (jsmul (lit 13.397) w)) (jsmul (lit 4.799) h))
              (jsmul (lit 5.677) a))
   \<and> (g \<noteq> ''male'' \<longrightarrow>
      calculateBMR w h a g =
        jssub (jsadd (jsadd (lit 447.593) (jsmul (lit 9.247) w)) (jsmul (lit 3.098) h))
              (jsmul (lit 4.330) a))"
  by (simp add: calculateBMR_def)

text \<open>Claim C3, witness: the theorem at the gender \<open>male\<close> and at another gender.\<close>

theorem C3_witness:
  "calculateBMR (Fin 70) (Fin 175) (Fin 30) ''male'' =
     jssub (jsadd (jsadd (lit 88.362) (jsmul (lit 13.397) (Fin 70))) (jsmul (lit 4.799) (Fin 175)))
           (jsmul (lit 5.677) (Fin 30))
   \<and> ''other'' \<noteq> ''male''
   \<and> calculateBMR (Fin 70) (Fin 175) (Fin 30) ''other'' =
     jssub (jsadd (jsadd (lit 447.593) (jsmul (lit 9.247) (Fin 70))) (jsmul (lit 3.098) (Fin 175)))
           (jsmul (lit 4.330) (Fin 30))"
  using C3_calculateBMR [of "''male''" "Fin 70" "Fin 175" "Fin 30"]
    C3_calculateBMR [of "''other''" "Fin 70" "Fin 175" "Fin 30"]
  by simp

text \<open>
  The multiplier of each level of the table, and the default \<open>1.2\<close> for a name that is
  neither in the table nor inherited from \<open>Object.prototype\<close>.
\<close>

lemma calculateTDEE_table:
  "calculateTDEE bmr ''sedentary'' = jsmul bmr (lit 1.2)"
  "calculateTDEE bmr ''light'' = jsmul bmr (lit 1.375)"
  "calculateTDEE bmr ''moderate'' = jsmul bmr (lit 1.55)"
  "calculateTDEE bmr ''active'' = jsmul bmr (lit 1.725)"
  "calculateTDEE bmr ''veryActive'' = jsmul bmr (lit 1.9)"
  by (simp_all add: calculateTDEE_def get_property_def activityMultipliers_def or_else_def js_eval)

lemma calculateTDEE_default:
  assumes "map_of activityMultipliers k = None" "k \<notin> set object_prototype_names"
  shows "calculateTDEE bmr k = jsmul bmr (lit 1.2)"
  using assms by (simp add: calculateTDEE_def get_property_def or_else_def)

text \<open>
  Claim C4 says that \<open>calculateTDEE\<close> multiplies by 1.2 for any activity level outside
  the table. The level \<open>constructor\<close> is outside the table, yet the lookup finds the
  inherited \<open>Object.prototype.constructor\<close>, which is truthy, and the product with it is
  \<open>NaN\<close> instead of \<open>1500 \<times> 1.2 = 1800\<close>.
\<close>

theorem C4_inherited_name:
  "map_of activityMultipliers ''constructor'' = None \<and>
   calculateTDEE (Fin 1500) ''constructor'' = NaN \<and>
   jsmul (Fin 1500) (lit 1.2) = Fin 1800"
  by (simp add: calculateTDEE_def get_property_def activityMultipliers_def or_else_def
      object_prototype_names_def js_eval)


section \<open>Consumed totals\<close>

lemma is_number_round64: "is_number (round64 q)"
  by (cases "round64 q") (auto simp: is_double_def dest: round64_idem)

lemma is_number_jsadd: "is_number (jsadd x y)"
  by (cases x; cases y) (simp_all add: is_number_round64)

lemma jsadd_zero: "is_number x \<Longrightarrow> jsadd x (Fin 0) = x"
  by (cases x) (simp_all add: is_double_def)

lemma is_number_foldl_jsadd: "is_number a \<Longrightarrow> is_number (foldl jsadd a vs)"
  by (induction vs arbitrary: a) (simp_all add: is_number_jsadd)

lemma foldl_jsadd_skip:
  assumes "is_number a"
  shows "foldl jsadd a (xs @ Fin 0 # ys) = foldl jsadd a (xs @ ys)"
  using is_number_foldl_jsadd [OF assms, of xs] by (simp add: jsadd_zero)

lemma foldl_reducer:
  "foldl reducer acc ms =
     \<lparr>totals.calories = foldl jsadd (totals.calories acc) (map (\<lambda>m. or_zero (foodData.calories m)) ms),
      totals.carbs = foldl jsadd (totals.carbs acc) (map (\<lambda>m. or_zero (foodData.carbs m)) ms),
      totals.protein = foldl jsadd (totals.protein acc) (map (\<lambda>m. or_zero (foodData.protein m)) ms),
      totals.fat = foldl jsadd (totals.fat acc) (map (\<lambda>m. or_zero (foodData.fat m)) ms)\<rparr>"
  by (induction ms arbitrary: acc) (simp_all add: reducer_def)

lemma consumedTotals_fields:
  "consumedTotals ms =
     \<lparr>totals.calories = foldl jsadd (Fin 0) (map (\<lambda>m. or_zero (foodData.calories m)) ms),
      totals.carbs = foldl jsadd (Fin 0) (map (\<lambda>m. or_zero (foodData.carbs m)) ms),
      totals.protein = foldl jsadd (Fin 0) (map (\<lambda>m. or_zero (foodData.protein m)) ms),
      totals.fat = foldl jsadd (Fin 0) (map (\<lambda>m. or_zero (foodData.fat m)) ms)\<rparr>"
  by (simp add: consumedTotals_def foldl_reducer)

lemma is_number_zero: "is_number (Fin 0)"
  by (simp add: is_double_def round64_def)

lemma missing_adds_nothing:
  assumes "f m = None"
  shows "foldl jsadd (Fin 0) (map (\<lambda>m. or_zero (f m)) (xs @ m # ys)) =
         foldl jsadd (Fin 0) (map (\<lambda>m. or_zero (f m)) (xs @ ys))"
  using foldl_jsadd_skip [OF is_number_zero] by (simp add: assms)

lemma three_meals_calories: "jsadd (jsadd (jsadd (Fin 0) (Fin 300)) (Fin 450)) (Fin 0) = Fin 750"
  by (simp add: js_eval)

text \<open>
  Claim C6. In every meal list, a meal whose calories, carbs, protein or fat is missing
  adds nothing to that total: the total is the one of the list without the meal. The
  three meals \<open>{calories: 300, ...}\<close>, \<open>{calories: 450, ...}\<close> and \<open>{calories: 0}\<close>, whatever
  the macros of the first two, have 750 calories in total, and their macro totals are
  those of the first two meals.
\<close>

theorem C6_missing_field_adds_zero:
  "(foodData.calories m = None \<longrightarrow>
      totals.calories (consumedTotals (xs @ m # ys)) = totals.calories (consumedTotals (xs @ ys)))
   \<and> (foodData.carbs m = None \<longrightarrow>
      totals.carbs (consumedTotals (xs @ m # ys)) = totals.carbs (consumedTotals (xs @ ys)))
   \<and> (foodData.protein m = None \<longrightarrow>
      totals.protein (consumedTotals (xs @ m # ys)) = totals.protein (consumedTotals (xs @ ys)))
   \<and> (foodData.fat m = None \<longrightarrow>
      totals.fat (consumedTotals (xs @ m # ys)) = totals.fat (consumedTotals (xs @ ys)))
   \<and> (let first = \<lparr>name = n1, calories = Some (Fin 300), carbs = c1, protein = p1, fat = f1\<rparr>;
          second = \<lparr>name = n2, calories = Some (Fin 450), carbs = c2, protein = p2, fat = f2\<rparr>;
          third = \<lparr>name = None, calories = Some (Fin 0), carbs = None, protein = None, fat = None\<rparr>
      in totals.calories (consumedTotals [first, second, third]) = Fin 750 \<and>
         totals.carbs (consumedTotals [first, second, third]) = totals.carbs (consumedTotals [first, second]) \<and>
         totals.protein (consumedTotals [first, second, third]) = totals.protein (consumedTotals [first, second]) \<and>
         totals.fat (consumedTotals [first, second, third]) = totals.fat (consumedTotals [first, second]))"
proof (intro conjI impI)
  assume "foodData.calories m = None"
  then show "totals.calories (consumedTotals (xs @ m # ys)) = totals.calories (consumedTotals (xs @ ys))"
    by (simp only: consumedTotals_fields totals.simps missing_adds_nothing)
next
  assume "foodData.carbs m = None"
  then show "totals.carbs (consumedTotals (xs @ m # ys)) = totals.carbs (consumedTotals (xs @ ys))"
    by (simp only: consumedTotals_fields totals.simps missing_adds_nothing)
next
  assume "foodData.protein m = None"
  then show "totals.protein (consumedTotals (xs @ m # ys)) = totals.protein (consumedTotals (xs @ ys))"
    by (simp only: consumedTotals_fields totals.simps missing_adds_nothing)
next
  assume "foodData.fat m = None"
  then show "totals.fat (consumedTotals (xs @ m # ys)) = totals.fat (consumedTotals (xs @ ys))"
    by (simp only: consumedTotals_fields totals.simps missing_adds_nothing)
next
  let ?first = "\<lparr>name = n1, calories = Some (Fin 300), carbs = c1, protein = p1, fat = f1\<rparr>"
  let ?second = "\<lparr>name = n2, calories = Some (Fin 450), carbs = c2, protein = p2, fat = f2\<rparr>"
  let ?third = "\<lparr>name = None, calories = Some (Fin 0), carbs = None, protein = None, fat = None\<rparr>"
  have cal: "totals.calories (consumedTotals [?first, ?second, ?third]) = Fin 750"
    using three_meals_calories by (simp add: consumedTotals_fields)
  have rest: "totals.carbs (consumedTotals ([?first, ?second] @ ?third # [])) = totals.carbs (consumedTotals ([?first, ?second] @ []))"
    "totals.protein (consumedTotals ([?first, ?second] @ ?third # [])) = totals.protein (consumedTotals ([?first, ?second] @ []))"
    "totals.fat (consumedTotals ([?first, ?second] @ ?third # [])) = totals.fat (consumedTotals ([?first, ?second] @ []))"
    by (simp_all only: consumedTotals_fields totals.simps missing_adds_nothing foodData.simps)
  show "let first = ?first; second = ?second; third = ?third
      in totals.calories (consumedTotals [first, second, third]) = Fin 750 \<and>
         totals.carbs (consumedTotals [first, second, third]) = totals.carbs (consumedTotals [first, second]) \<and>
         totals.protein (consumedTotals [first, second, third]) = totals.protein (consumedTotals [first, second]) \<and>
         totals.fat (consumedTotals [first, second, third]) = totals.fat (consumedTotals [first, second])"
    using cal rest by (simp only: Let_def append.simps)
qed

text \<open>Claim C6, witness: a meal without carbs between two meals with 40 g and 50 g.\<close>

theorem C6_witness:
  "foodData.carbs \<lparr>name = None, calories = Some (Fin 0), carbs = None, protein = None, fat = None\<rparr> = None
   \<and> totals.carbs (consumedTotals
        ([\<lparr>name = Some ''a'', calories = Some (Fin 300), carbs = Some (Fin 40), protein = Some (Fin 20), fat = Some (Fin 10)\<rparr>]
         @ \<lparr>name = None, calories = Some (Fin 0), carbs = None, protein = None, fat = None\<rparr>
         # [\<lparr>name = Some ''b'', calories = Some (Fin 450), carbs = Some (Fin 50), protein = Some (Fin 30), fat = Some (Fin 15)\<rparr>]))
     = Fin 90"
proof -
  have "totals.carbs (consumedTotals
        ([\<lparr>name = Some ''a'', calories = Some (Fin 300), carbs = Some (Fin 40), protein = Some (Fin 20), fat = Some (Fin 10)\<rparr>]
         @ [\<lparr>name = Some ''b'', calories = Some (Fin 450), carbs = Some (Fin 50), protein = Some (Fin 30), fat = Some (Fin 15)\<rparr>]))
     = Fin 90"
    by (simp add: consumedTotals_fields js_eval)
  with C6_missing_field_adds_zero
    [of "\<lparr>name = None, calories = Some (Fin 0), carbs = None, protein = None, fat = None\<rparr>"
        "[\<lparr>name = Some ''a'', calories = Some (Fin 300), carbs = Some (Fin 40), protein = Some (Fin 20), fat = Some (Fin 10)\<rparr>]"
        "[\<lparr>name = Some ''b'', calories = Some (Fin 450), carbs = Some (Fin 50), protein = Some (Fin 30), fat = Some (Fin 15)\<rparr>]"]
  show ?thesis by simp
qed

subsection \<open>Order of the meals\<close>

lemma snack_totals:
  "totals.fat (consumedTotals [snack 0.1, snack 0.2, snack 0.3]) = Fin (1351079888211149 / 2251799813685248)"
  "totals.fat (consumedTotals [snack 0.3, snack 0.2, snack 0.1]) = Fin (5404319552844595 / 9007199254740992)"
  by (simp_all add: consumedTotals_fields snack_def js_eval)

text \<open>
  Claim C5, as stated, fails: the additions round, so the order of the meals can change a
  total. Three meals with 0.1 g, 0.2 g and 0.3 g of fat give 0.6000000000000001 g in this
  order and 0.6 g in the reverse order.
\<close>

theorem C5_counterexample:
  "mset [snack 0.3, snack 0.2, snack 0.1] = mset [snack 0.1, snack 0.2, snack 0.3] \<and>
   consumedTotals [snack 0.3, snack 0.2, snack 0.1] \<noteq> consumedTotals [snack 0.1, snack 0.2, snack 0.3]"
proof
  show "mset [snack 0.3, snack 0.2, snack 0.1] = mset [snack 0.1, snack 0.2, snack 0.3]"
    by (simp add: add_mset_commute)
  have "totals.fat (consumedTotals [snack 0.3, snack 0.2, snack 0.1]) \<noteq>
        totals.fat (consumedTotals [snack 0.1, snack 0.2, snack 0.3])"
    unfolding snack_totals by simp
  then show "consumedTotals [snack 0.3, snack 0.2, snack 0.1] \<noteq> consumedTotals [snack 0.1, snack 0.2, snack 0.3]"
    by (rule contrapos_nn) simp
qed


lemma amount_nonneg: "whole v \<Longrightarrow> 0 \<le> amount v"
  by (cases v rule: whole.cases) simp_all

lemma sum_amount_nonneg: "list_all whole vs \<Longrightarrow> 0 \<le> sum_list (map amount vs)"
  by (induction vs) (simp_all add: amount_nonneg)

lemma or_zero_whole: "whole v \<Longrightarrow> or_zero v = Fin (amount v)"
  by (cases v rule: whole.cases) simp_all

lemma whole_amount: "whole v \<Longrightarrow> of_int \<lfloor>amount v\<rfloor> = amount v"
  by (cases v rule: whole.cases) simp_all

lemma round64_whole:
  assumes "0 \<le> x" "x \<le> 2 ^ 53" "of_int \<lfloor>x\<rfloor> = x"
  shows "round64 x = Fin x"
proof -
  have "\<bar>\<lfloor>x\<rfloor>\<bar> \<le> 2 ^ 53"
    using assms(1,2) by (simp add: floor_le_iff zero_le_floor abs_if)
  from round64_of_int [OF this] show ?thesis by (simp add: assms(3))
qed

lemma foldl_jsadd_whole:
  assumes "list_all whole vs" "0 \<le> a" "of_int \<lfloor>a\<rfloor> = a"
    and "a + sum_list (map amount vs) \<le> 2 ^ 53"
  shows "foldl jsadd (Fin a) (map or_zero vs) = Fin (a + sum_list (map amount vs))"
  using assms
proof (induction vs arbitrary: a)
  case Nil
  then show ?case by simp
next
  case (Cons v vs)
  from Cons.prems(1) have v: "whole v" and vs: "list_all whole vs" by simp_all
  have rest: "0 \<le> sum_list (map amount vs)" using vs by (rule sum_amount_nonneg)
  have nn: "0 \<le> a + amount v" using Cons.prems(2) amount_nonneg [OF v] by simp
  have le: "a + amount v \<le> 2 ^ 53" using Cons.prems(4) rest by simp
  obtain i j :: int where ij: "a = of_int i" "amount v = of_int j"
    using Cons.prems(3) whole_amount [OF v] by metis
  have int: "of_int \<lfloor>a + amount v\<rfloor> = a + amount v"
    unfolding ij by (simp flip: of_int_add)
  have step: "jsadd (Fin a) (or_zero v) = Fin (a + amount v)"
    by (simp add: or_zero_whole [OF v] round64_whole [OF nn le int])
  have "foldl jsadd (Fin (a + amount v)) (map or_zero vs) =
        Fin (a + amount v + sum_list (map amount vs))"
    using Cons.prems(4) by (intro Cons.IH [OF vs nn int]) (simp add: add.assoc)
  then show ?case by (simp add: step add.assoc)
qed

lemma sum_list_map_mset:
  fixes f :: "'a \<Rightarrow> rat"
  assumes "mset xs = mset ys"
  shows "sum_list (map f xs) = sum_list (map f ys)"
proof -
  have "sum_mset (mset (map f xs)) = sum_mset (mset (map f ys))"
    by (simp only: mset_map assms)
  then show ?thesis by (simp only: sum_mset_sum_list)
qed

lemma consumedTotals_whole:
  assumes "list_all whole_meal ms" "within_2_53 ms"
  shows "consumedTotals ms =
     \<lparr>totals.calories = Fin (sum_list (map (\<lambda>m. amount (foodData.calories m)) ms)),
      totals.carbs = Fin (sum_list (map (\<lambda>m. amount (foodData.carbs m)) ms)),
      totals.protein = Fin (sum_list (map (\<lambda>m. amount (foodData.protein m)) ms)),
      totals.fat = Fin (sum_list (map (\<lambda>m. amount (foodData.fat m)) ms))\<rparr>"
proof -
  have field: "foldl jsadd (Fin 0) (map (\<lambda>m. or_zero (f m)) ms) = Fin (sum_list (map (\<lambda>m. amount (f m)) ms))"
    if "list_all (\<lambda>m. whole (f m)) ms" "sum_list (map (\<lambda>m. amount (f m)) ms) \<le> 2 ^ 53"
    for f :: "'a foodData_scheme \<Rightarrow> jsnum option"
    using foldl_jsadd_whole [of "map f ms" 0] that
    by (simp add: list_all_iff comp_def)
  from assms show ?thesis
    by (simp add: consumedTotals_fields field list_all_iff whole_meal_def within_2_53_def)
qed

text \<open>
  Claim C5, amended: the totals of the empty meal list are all 0; and for a meal list whose
  calories, carbs, protein and fat are whole non-negative numbers (or missing) with sums of
  at most \<open>2^53\<close>, every permutation of the list has the same totals.
\<close>

theorem C5_whole_amounts:
  assumes "list_all whole_meal ms" "within_2_53 ms" "mset ms' = mset ms"
  shows "consumedTotals [] = \<lparr>totals.calories = Fin 0, carbs = Fin 0, protein = Fin 0, fat = Fin 0\<rparr>
    \<and> consumedTotals ms' = consumedTotals ms"
proof
  show "consumedTotals [] = \<lparr>totals.calories = Fin 0, carbs = Fin 0, protein = Fin 0, fat = Fin 0\<rparr>"
    by (simp add: consumedTotals_def)
  have set: "set ms' = set ms" using assms(3) by (rule mset_eq_setD)
  have sums: "sum_list (map f ms') = sum_list (map f ms)" for f :: "'a foodData_scheme \<Rightarrow> rat"
    using assms(3) by (rule sum_list_map_mset)
  have w': "list_all whole_meal ms'" using assms(1) set by (simp add: list_all_iff)
  have b': "within_2_53 ms'" using assms(2) by (simp add: within_2_53_def sums)
  show "consumedTotals ms' = consumedTotals ms"
    by (simp add: consumedTotals_whole [OF w' b'] consumedTotals_whole [OF assms(1,2)] sums)
qed

text \<open>Claim C5, witness: two meals with whole amounts, in both orders.\<close>

theorem C5_witness:
  "list_all whole_meal
     [\<lparr>name = Some ''a'', calories = Some (Fin 300), carbs = Some (Fin 40), protein = None, fat = Some (Fin 10)\<rparr>,
      \<lparr>name = Some ''b'', calories = Some (Fin 450), carbs = Some (Fin 50), protein = Some (Fin 30), fat = Some (Fin 15)\<rparr>]
   \<and> within_2_53
     [\<lparr>name = Some ''a'', calories = Some (Fin 300), carbs = Some (Fin 40), protein = None, fat = Some (Fin 10)\<rparr>,
      \<lparr>name = Some ''b'', calories = Some (Fin 450), carbs = Some (Fin 50), protein = Some (Fin 30), fat = Some (Fin 15)\<rparr>]
   \<and> consumedTotals
     [\<lparr>name = Some ''b'', calories = Some (Fin 450), carbs = Some (Fin 50), protein = Some (Fin 30), fat = Some (Fin 15)\<rparr>,
      \<lparr>name = Some ''a'', calories = Some (Fin 300), carbs = Some (Fin 40), protein = None, fat = Some (Fin 10)\<rparr>]
     = consumedTotals
     [\<lparr>name = Some ''a'', calories = Some (Fin 300), carbs = Some (Fin 40), protein = None, fat = Some (Fin 10)\<rparr>,
      \<lparr>name = Some ''b'', calories = Some (Fin 450), carbs = Some (Fin 50), protein = Some (Fin 30), fat = Some (Fin 15)\<rparr>]"
proof -
  let ?a = "\<lparr>name = Some ''a'', calories = Some (Fin 300), carbs = Some (Fin 40), protein = None, fat = Some (Fin 10)\<rparr>"
  let ?b = "\<lparr>name = Some ''b'', calories = Some (Fin 450), carbs = Some (Fin 50), protein = Some (Fin 30), fat = Some (Fin 15)\<rparr>"
  have w: "list_all whole_meal [?a, ?b]" by (simp add: whole_meal_def)
  have b: "within_2_53 [?a, ?b]" by (simp add: within_2_53_def)
  have p: "mset [?b, ?a] = mset [?a, ?b]" by (simp add: add_mset_commute)
  from C5_whole_amounts [OF w b p] w b show ?thesis by blast
qed

section \<open>Water counter\<close>

lemma nonneg_Math_max: "x \<noteq> NaN \<Longrightarrow> nonneg (Math_max (Fin 0) x)"
  by (cases x) simp_all

lemma nonneg_minus_one: "nonneg x \<Longrightarrow> jssub x (Fin 1) \<noteq> NaN"
  by (cases x) (simp_all add: round64_not_NaN)

lemma nonneg_plus_one: "nonneg x \<Longrightarrow> jsadd x (Fin 1) \<noteq> NaN"
  by (cases x) (simp_all add: round64_not_NaN)

lemma count_step:
  "nonneg (waterCount w) \<Longrightarrow> Snapshot \<noteq> ev \<Longrightarrow> nonneg (waterCount (water_step w ev))"
  by (cases ev)
    (simp_all add: updateWaterCount_def Let_def nonneg_Math_max nonneg_minus_one nonneg_plus_one)

lemma count_run:
  "nonneg (waterCount w) \<Longrightarrow> Snapshot \<notin> set evs \<Longrightarrow> nonneg (waterCount (water_run w evs))"
  unfolding water_run_def
  by (induction evs arbitrary: w) (simp_all add: count_step)

lemma water_ok_step: "water_ok w \<Longrightarrow> water_ok (water_step w ev)"
  by (cases ev)
    (auto simp: water_ok_def stored_nonneg_def updateWaterCount_def Let_def nonneg_Math_max
      nonneg_minus_one nonneg_plus_one split: option.splits)

lemma water_ok_run: "water_ok w \<Longrightarrow> water_ok (water_run w evs)"
  unfolding water_run_def
  by (induction evs arbitrary: w) (simp_all add: water_ok_step)

lemma minus_at_zero: "waterCount (water_step (w\<lparr>waterCount := Fin 0\<rparr>) (Minus ok)) = Fin 0"
  by (simp add: updateWaterCount_def js_eval)

text \<open>
  Claim C7. From a water count that is not negative, after every finite sequence of
  decrements and increments, with writes that succeed or fail, the count is not negative;
  a decrement at 0 leaves the count at 0. The same holds when snapshots of the stored
  record are delivered in between, provided that the stored count is not negative at the
  start, and the stored count then stays non-negative as well.
\<close>

theorem C7_water_count_never_negative:
  assumes "nonneg (waterCount w)" and "Snapshot \<notin> set evs \<or> stored_nonneg w"
  shows "nonneg (waterCount (water_run w evs))
    \<and> (stored_nonneg w \<longrightarrow> stored_nonneg (water_run w evs))
    \<and> waterCount (water_step (w\<lparr>waterCount := Fin 0\<rparr>) (Minus ok)) = Fin 0"
proof (intro conjI impI)
  show "nonneg (waterCount (water_run w evs))"
  proof (cases "stored_nonneg w")
    case True
    with assms(1) have "water_ok w" by (simp add: water_ok_def)
    then have "water_ok (water_run w evs)" by (rule water_ok_run)
    then show ?thesis by (simp add: water_ok_def)
  next
    case False
    with assms(2) have "Snapshot \<notin> set evs" by simp
    with assms(1) show ?thesis by (rule count_run)
  qed
next
  assume "stored_nonneg w"
  with assms(1) have "water_ok w" by (simp add: water_ok_def)
  then have "water_ok (water_run w evs)" by (rule water_ok_run)
  then show "stored_nonneg (water_run w evs)" by (simp add: water_ok_def)
next
  show "waterCount (water_step (w\<lparr>waterCount := Fin 0\<rparr>) (Minus ok)) = Fin 0"
    by (rule minus_at_zero)
qed

text \<open>
  Claim C7, witness (scenario 4): at 0 a decrement leaves 0, and three increments then
  give 3.
\<close>

theorem C7_witness:
  "nonneg (waterCount \<lparr>waterCount = Fin 0, stored = None\<rparr>)
   \<and> Snapshot \<notin> set [Minus True, Plus True, Plus True, Plus True]
   \<and> waterCount (water_run \<lparr>waterCount = Fin 0, stored = None\<rparr> [Minus True]) = Fin 0
   \<and> waterCount (water_run \<lparr>waterCount = Fin 0, stored = None\<rparr>
        [Minus True, Plus True, Plus True, Plus True]) = Fin 3
   \<and> nonneg (waterCount (water_run \<lparr>waterCount = Fin 0, stored = None\<rparr>
        [Minus True, Plus True, Plus True, Plus True]))"
proof -
  have run: "waterCount (water_run \<lparr>waterCount = Fin 0, stored = None\<rparr> [Minus True]) = Fin 0"
    "waterCount (water_run \<lparr>waterCount = Fin 0, stored = None\<rparr>
        [Minus True, Plus True, Plus True, Plus True]) = Fin 3"
    by (simp_all add: water_run_def updateWaterCount_def js_eval)
  have h: "nonneg (waterCount \<lparr>waterCount = Fin 0, stored = None\<rparr>)"
    "Snapshot \<notin> set [Minus True, Plus True, Plus True, Plus True]
       \<or> stored_nonneg \<lparr>waterCount = Fin 0, stored = None\<rparr>"
    by simp_all
  from C7_water_count_never_negative [OF h]
  have "nonneg (waterCount (water_run \<lparr>waterCount = Fin 0, stored = None\<rparr>
        [Minus True, Plus True, Plus True, Plus True]))"
    by blast
  with run h(1) show ?thesis by simp
qed


section \<open>Data wipe\<close>

lemma map_of_commit_deletes:
  "map_of (commit_deletes batch st) k = (if k \<in> set batch then None else map_of st k)"
  unfolding commit_deletes_def by (induction st) auto

lemma set_getDocs: "set (getDocs st coll) = {p \<in> fst ` set st. coll p}"
  by (auto simp: getDocs_def)

lemma wiped:
  assumes "k \<in> set batch \<or> k \<notin> fst ` set st"
  shows "map_of (commit_deletes batch st) k = None"
  using assms by (auto simp: map_of_commit_deletes map_of_eq_None_iff)

lemma kept:
  assumes "owner k \<noteq> u"
  shows "map_of (commit_deletes (ProfilePath u # getDocs st (in_meals u) @ getDocs st (in_daily_stats u)) st) k
     = map_of st k"
proof -
  have "k \<notin> set (ProfilePath u # getDocs st (in_meals u) @ getDocs st (in_daily_stats u))"
    using assms by (cases k) (auto simp: set_getDocs)
  then show ?thesis by (simp only: map_of_commit_deletes if_False)
qed

text \<open>
  Claim C8. For every store and a signed-in user, the data wipe either resolves, and then
  the store holds no profile document, no meal (whatever its \<open>createdAt\<close>) and no daily
  record of that user, the documents of other users are as before and the profile of the
  session is cleared; or it rejects, because a read or the commit failed, and then the
  store and the session are exactly as before.
\<close>

theorem C8_data_wipe:
  assumes "userId s = Some u"
  shows "(case App_handleDataDelete w s of
      (Resolved, s') \<Rightarrow>
        meals_read_ok w \<and> stats_read_ok w \<and> commit_ok w \<and>
        map_of (store s') (ProfilePath u) = None \<and>
        (\<forall>i. map_of (store s') (MealPath u i) = None) \<and>
        (\<forall>d. map_of (store s') (DailyStatsPath u d) = None) \<and>
        (\<forall>p. owner p = u \<or> map_of (store s') p = map_of (store s) p) \<and>
        userProfile s' = None
    | (Rejected, s') \<Rightarrow>
        \<not> (meals_read_ok w \<and> stats_read_ok w \<and> commit_ok w) \<and> s' = s)"
proof (cases "meals_read_ok w \<and> stats_read_ok w \<and> commit_ok w")
  case False
  then show ?thesis
    using assms by (auto simp: App_handleDataDelete_def)
next
  case True
  let ?batch = "ProfilePath u # getDocs (store s) (in_meals u) @ getDocs (store s) (in_daily_stats u)"
  have run: "App_handleDataDelete w s =
      (Resolved, s\<lparr>store := commit_deletes ?batch (store s), userProfile := None\<rparr>)"
    using assms True by (simp add: App_handleDataDelete_def)
  have p: "map_of (commit_deletes ?batch (store s)) (ProfilePath u) = None"
    by (rule wiped) simp
  have m: "map_of (commit_deletes ?batch (store s)) (MealPath u i) = None" for i
    by (rule wiped) (auto simp: set_getDocs)
  have d: "map_of (commit_deletes ?batch (store s)) (DailyStatsPath u i) = None" for i
    by (rule wiped) (auto simp: set_getDocs)
  have k: "owner q = u \<or> map_of (commit_deletes ?batch (store s)) q = map_of (store s) q" for q
    using kept [of q u "store s"] by blast
  show ?thesis
    unfolding run using True p m d k by simp
qed

text \<open>
  Claim C8, witness: a user with a profile, a meal of today, a meal of another day and a
  daily record, beside a meal of another user.
\<close>

theorem C8_witness:
  "userId (scenario_app\<lparr>store := scenario_store\<rparr>) = Some ''u1''
   \<and> fst (App_handleDataDelete \<lparr>meals_read_ok = True, stats_read_ok = True, commit_ok = True\<rparr>
          (scenario_app\<lparr>store := scenario_store\<rparr>)) = Resolved
   \<and> map_of (store (snd (App_handleDataDelete
          \<lparr>meals_read_ok = True, stats_read_ok = True, commit_ok = True\<rparr>
          (scenario_app\<lparr>store := scenario_store\<rparr>)))) (MealPath ''u1'' ''m2'') = None
   \<and> store (snd (App_handleDataDelete
          \<lparr>meals_read_ok = True, stats_read_ok = True, commit_ok = True\<rparr>
          (scenario_app\<lparr>store := scenario_store\<rparr>)))
       = [(MealPath ''u2'' ''m1'', MealDoc (foodData.extend (snack 0.1) (meal.fields 86400000)))]"
proof -
  let ?s = "scenario_app\<lparr>store := scenario_store\<rparr>"
  let ?w = "\<lparr>meals_read_ok = True, stats_read_ok = True, commit_ok = True\<rparr>"
  have u: "userId ?s = Some ''u1''" by (simp add: scenario_app_def)
  have r: "fst (App_handleDataDelete ?w ?s) = Resolved"
    by (simp add: App_handleDataDelete_def scenario_app_def)
  have st: "store (snd (App_handleDataDelete ?w ?s))
       = [(MealPath ''u2'' ''m1'', MealDoc (foodData.extend (snack 0.1) (meal.fields 86400000)))]"
    by (simp add: App_handleDataDelete_def scenario_app_def scenario_store_def getDocs_def
        commit_deletes_def)
  from C8_data_wipe [OF u, of ?w] r
  have "map_of (store (snd (App_handleDataDelete ?w ?s))) (MealPath ''u1'' ''m2'') = None"
    by (cases "App_handleDataDelete ?w ?s") simp
  with u r st show ?thesis by blast
qed

section \<open>Inference results\<close>

lemma try_parse_None_iff:
  "try_parse env r = None \<longleftrightarrow> is_error r \<or> is_malformed env r \<or> lacks_text r"
proof (cases r)
  case NetworkError
  then show ?thesis by simp
next
  case (Response ok b)
  then show ?thesis by (cases b) (auto split: option.splits)
qed

lemma store_sendAIRequest: "store (sendAIRequest env r s) = store s"
  by (simp add: sendAIRequest_def split: option.splits)

lemma confirm_falsy: "\<not> truthy_json (aiResult s) \<Longrightarrow> handleAiResultConfirm env s = s"
  by (simp add: handleAiResultConfirm_def)

text \<open>
  A text that parses to an object is not a failure, whatever properties the object has,
  also none: the object becomes the pending result, which the dialog shows with absent
  numbers as 0.
\<close>

lemma parsed_object_is_pending:
  assumes "try_parse env r = Some (Object f)"
  shows "sendAIRequest env r s = s\<lparr>aiResult := Object f, isLoading := False\<rparr>"
  using assms by (simp add: sendAIRequest_def)

lemma confirm_truthy:
  assumes "truthy_json (aiResult s)" "userId s = Some u" "write_ok env" "editingMeal s = None"
  shows "store (handleAiResultConfirm env s) =
     setDoc (store s) (MealPath u (new_id env))
       (MealDoc (foodData.extend (spread_food (aiResult s)) (meal.fields (now env))))"
  using assms by (simp add: handleAiResultConfirm_def handleClose_def App_handleFoodAction_def)

lemma parsed_without_fields:
  assumes "lacks_expected_fields env r" "\<not> is_error r" "\<not> lacks_text r"
  shows "\<exists>v. try_parse env r = Some v \<and> \<not> has_expected_fields v"
proof (cases r)
  case NetworkError
  with assms show ?thesis by simp
next
  case (Response ok b)
  with assms show ?thesis by (cases b) (auto split: option.splits if_splits)
qed

lemma json_response:
  "try_parse json_env (text_response ''{}'') = Some (Object no_food)"
  "try_parse json_env (text_response ''null'') = Some (Primitive False)"
  by (simp_all add: json_env_def text_response_def)

text \<open>
  Claim C9, as stated, fails for a response that lacks the expected fields. When the text
  of the response is \<open>{}\<close>, an object with none of \<open>name\<close>, \<open>calories\<close>, \<open>carbs\<close>,
  \<open>protein\<close> and \<open>fat\<close>, no alert is shown, the object becomes the pending result, and the
  confirmation writes it as a meal. When the text is \<open>null\<close> no alert is shown either.
\<close>

theorem C9_counterexample:
  "lacks_expected_fields json_env (text_response ''{}'')
   \<and> alerts (sendAIRequest json_env (text_response ''{}'') scenario_app) = []
   \<and> aiResult (sendAIRequest json_env (text_response ''{}'') scenario_app) = Object no_food
   \<and> store (handleAiResultConfirm json_env
        (sendAIRequest json_env (text_response ''{}'') scenario_app)) =
       [(MealPath ''u1'' ''m1'', MealDoc (foodData.extend no_food (meal.fields 0)))]
   \<and> lacks_expected_fields json_env (text_response ''null'')
   \<and> alerts (sendAIRequest json_env (text_response ''null'') scenario_app) = []"
proof -
  have 1: "lacks_expected_fields json_env (text_response ''{}'')"
    "lacks_expected_fields json_env (text_response ''null'')"
    by (simp_all add: json_env_def text_response_def no_food_def)
  have 2: "sendAIRequest json_env (text_response ''{}'') scenario_app =
      scenario_app\<lparr>aiResult := Object no_food, isLoading := False\<rparr>"
    "sendAIRequest json_env (text_response ''null'') scenario_app =
      scenario_app\<lparr>aiResult := Primitive False, isLoading := False\<rparr>"
    by (simp_all add: sendAIRequest_def json_response)
  have 3: "store (handleAiResultConfirm json_env
        (scenario_app\<lparr>aiResult := Object no_food, isLoading := False\<rparr>)) =
       [(MealPath ''u1'' ''m1'', MealDoc (foodData.extend no_food (meal.fields 0)))]"
    by (simp add: handleAiResultConfirm_def handleClose_def App_handleFoodAction_def
        scenario_app_def json_env_def scenario_env_def setDoc_def)
  show ?thesis unfolding 2 using 1 3 by (simp add: scenario_app_def)
qed

text \<open>
  Claim C9, amended. For every response of the inference service that is an error or is
  malformed, or whose body lacks \<open>candidates[0].content.parts[0].text\<close>, \<open>sendAIRequest\<close>
  shows the failure alert and sets the pending result to \<open>null\<close>, and a confirmation after
  it writes nothing. The parsed text itself is not checked for \<open>name\<close>, \<open>calories\<close>,
  \<open>carbs\<close>, \<open>protein\<close> and \<open>fat\<close>: when an ok response carries a text that parses to a
  value without them, that value becomes the pending result and no alert is shown. No
  response makes \<open>sendAIRequest\<close> write to the store. A confirmation changes the store
  only when the pending result is truthy, and then, for a signed-in user who is not
  editing a meal and whose write succeeds, it adds the properties of the pending result
  as a meal under a new identifier. After a request the pending result is truthy only
  when it is the successfully parsed text of the response.
\<close>

theorem C9_failed_inference_writes_no_meal:
  "(is_error r \<or> is_malformed env r \<or> lacks_text r \<longrightarrow>
      sendAIRequest env r s =
        s\<lparr>alerts := alerts s @ [Alert_ai_could_not_analyze], aiResult := Primitive False,
          isLoading := False\<rparr>
      \<and> store (handleAiResultConfirm env' (sendAIRequest env r s)) = store s)
   \<and> (lacks_expected_fields env r \<and> \<not> is_error r \<and> \<not> lacks_text r \<longrightarrow>
      (\<exists>v. \<not> has_expected_fields v \<and>
           sendAIRequest env r s = s\<lparr>aiResult := v, isLoading := False\<rparr>))
   \<and> store (sendAIRequest env r s) = store s
   \<and> (store (handleAiResultConfirm env' s) \<noteq> store s \<longrightarrow> truthy_json (aiResult s))
   \<and> (truthy_json (aiResult s) \<and> userId s = Some u \<and> write_ok env' \<and> editingMeal s = None \<longrightarrow>
        store (handleAiResultConfirm env' s) =
          setDoc (store s) (MealPath u (new_id env'))
            (MealDoc (foodData.extend (spread_food (aiResult s)) (meal.fields (now env')))))
   \<and> (truthy_json (aiResult (sendAIRequest env r s)) \<longrightarrow>
        try_parse env r = Some (aiResult (sendAIRequest env r s)) \<and>
        \<not> (is_error r \<or> is_malformed env r \<or> lacks_text r))"
proof (intro conjI impI)
  assume "is_error r \<or> is_malformed env r \<or> lacks_text r"
  then have none: "try_parse env r = None" by (simp only: try_parse_None_iff)
  then show failed: "sendAIRequest env r s =
        s\<lparr>alerts := alerts s @ [Alert_ai_could_not_analyze], aiResult := Primitive False,
          isLoading := False\<rparr>"
    by (simp add: sendAIRequest_def)
  have "\<not> truthy_json (aiResult (sendAIRequest env r s))"
    by (simp add: failed)
  then show "store (handleAiResultConfirm env' (sendAIRequest env r s)) = store s"
    by (simp add: confirm_falsy store_sendAIRequest)
next
  assume "lacks_expected_fields env r \<and> \<not> is_error r \<and> \<not> lacks_text r"
  then obtain v where "try_parse env r = Some v" "\<not> has_expected_fields v"
    using parsed_without_fields by blast
  then show "\<exists>v. \<not> has_expected_fields v \<and>
           sendAIRequest env r s = s\<lparr>aiResult := v, isLoading := False\<rparr>"
    by (auto simp add: sendAIRequest_def)
next
  show "store (sendAIRequest env r s) = store s" by (rule store_sendAIRequest)
next
  assume "store (handleAiResultConfirm env' s) \<noteq> store s"
  then show "truthy_json (aiResult s)"
    by (rule contrapos_np) (simp add: confirm_falsy)
next
  assume "truthy_json (aiResult s) \<and> userId s = Some u \<and> write_ok env' \<and> editingMeal s = None"
  then show "store (handleAiResultConfirm env' s) =
          setDoc (store s) (MealPath u (new_id env'))
            (MealDoc (foodData.extend (spread_food (aiResult s)) (meal.fields (now env'))))"
    by (simp add: confirm_truthy)
next
  assume t: "truthy_json (aiResult (sendAIRequest env r s))"
  then show "try_parse env r = Some (aiResult (sendAIRequest env r s))"
    by (cases "try_parse env r") (simp_all add: sendAIRequest_def)
  then show "\<not> (is_error r \<or> is_malformed env r \<or> lacks_text r)"
    by (simp flip: try_parse_None_iff)
qed

text \<open>
  Claim C9, witness: the theorem at a response with an empty \<open>candidates\<close> array, where
  the alert is shown and a confirmation writes nothing, and at the response with the text
  \<open>{}\<close>, where the pending result is truthy and a confirmation writes a meal.
\<close>

theorem C9_witness:
  "lacks_text (Response True (Some \<lparr>candidates = Some []\<rparr>))
   \<and> alerts (sendAIRequest json_env (Response True (Some \<lparr>candidates = Some []\<rparr>)) scenario_app)
       = [Alert_ai_could_not_analyze]
   \<and> store (handleAiResultConfirm json_env
        (sendAIRequest json_env (Response True (Some \<lparr>candidates = Some []\<rparr>)) scenario_app)) = []
   \<and> lacks_expected_fields json_env (text_response ''{}'')
   \<and> \<not> is_error (text_response ''{}'') \<and> \<not> lacks_text (text_response ''{}'')
   \<and> alerts (sendAIRequest json_env (text_response ''{}'') scenario_app) = []
   \<and> truthy_json (aiResult (sendAIRequest json_env (text_response ''{}'') scenario_app))
   \<and> userId (sendAIRequest json_env (text_response ''{}'') scenario_app) = Some ''u1''
   \<and> write_ok json_env
   \<and> editingMeal (sendAIRequest json_env (text_response ''{}'') scenario_app) = None
   \<and> store (handleAiResultConfirm json_env
        (sendAIRequest json_env (text_response ''{}'') scenario_app)) \<noteq> []"
proof -
  let ?r = "Response True (Some \<lparr>candidates = Some []\<rparr>)"
  let ?t = "text_response ''{}''"
  let ?s = "sendAIRequest json_env ?t scenario_app"
  have l: "lacks_text ?r" by simp
  from C9_failed_inference_writes_no_meal [of ?r json_env scenario_app json_env] l
  have f: "sendAIRequest json_env ?r scenario_app =
        scenario_app\<lparr>alerts := alerts scenario_app @ [Alert_ai_could_not_analyze],
          aiResult := Primitive False, isLoading := False\<rparr>"
    and st: "store (handleAiResultConfirm json_env (sendAIRequest json_env ?r scenario_app))
        = store scenario_app"
    by blast+
  have a: "alerts (sendAIRequest json_env ?r scenario_app) = [Alert_ai_could_not_analyze]"
    unfolding f by (simp add: scenario_app_def)
  have b: "store (handleAiResultConfirm json_env (sendAIRequest json_env ?r scenario_app)) = []"
    unfolding st by (simp add: scenario_app_def)
  have h: "lacks_expected_fields json_env ?t" "\<not> is_error ?t" "\<not> lacks_text ?t"
    by (simp_all add: json_env_def text_response_def no_food_def)
  have p: "sendAIRequest json_env ?t scenario_app =
      scenario_app\<lparr>aiResult := Object no_food, isLoading := False\<rparr>"
    by (simp add: sendAIRequest_def json_response)
  have c: "truthy_json (aiResult ?s)" "userId ?s = Some ''u1''" "write_ok json_env"
    "editingMeal ?s = None"
    unfolding p by (simp_all add: scenario_app_def json_env_def scenario_env_def)
  from C9_failed_inference_writes_no_meal [of ?t json_env scenario_app] h
  obtain v where "sendAIRequest json_env ?t scenario_app =
      scenario_app\<lparr>aiResult := v, isLoading := False\<rparr>"
    by blast
  then have e: "alerts ?s = []"
    by (simp add: scenario_app_def)
  from C9_failed_inference_writes_no_meal
    [where s = "?s" and env' = json_env and u = "''u1''"] c
  have "store (handleAiResultConfirm json_env ?s) =
          setDoc (store ?s) (MealPath ''u1'' (new_id json_env))
            (MealDoc (foodData.extend (spread_food (aiResult ?s)) (meal.fields (now json_env))))"
    by blast
  then have d: "store (handleAiResultConfirm json_env ?s) \<noteq> []"
    by (simp add: setDoc_def p scenario_app_def)
  from l a b h c d e show ?thesis by blast
qed

section \<open>Validation of the profile form\<close>

lemma rejected_alerts: "rejected s s' \<Longrightarrow> alerts s' = alerts s @ [Alert_fill_all_fields]"
  by (simp add: rejected_def)

lemma setup_rejected_iff:
  "rejected s (ProfileSetup_handleSubmit env fd s) \<longleftrightarrow>
     height fd = [] \<or> weight fd = [] \<or> age fd = []"
proof (cases "height fd = [] \<or> weight fd = [] \<or> age fd = []")
  case True
  then show ?thesis
    by (auto simp: rejected_def ProfileSetup_handleSubmit_def not_str_def)
next
  case False
  then have "alerts (ProfileSetup_handleSubmit env fd s) \<noteq> alerts s @ [Alert_fill_all_fields]"
    by (simp add: ProfileSetup_handleSubmit_def not_str_def Let_def split: option.splits)
  with False show ?thesis by (auto dest: rejected_alerts)
qed

lemma settings_rejected_iff:
  "rejected s (SettingsPage_handleSubmit env pf s) \<longleftrightarrow>
     height pf = [] \<or> weight pf = [] \<or> age pf = []"
proof (cases "height pf = [] \<or> weight pf = [] \<or> age pf = []")
  case True
  then show ?thesis
    by (auto simp: rejected_def SettingsPage_handleSubmit_def not_str_def)
next
  case False
  then have "alerts (SettingsPage_handleSubmit env pf s) \<noteq> alerts s @ [Alert_fill_all_fields]"
    by (simp add: SettingsPage_handleSubmit_def App_handleProfileUpdate_def not_str_def Let_def
        split: option.splits)
  with False show ?thesis by (auto dest: rejected_alerts)
qed

lemma settings_accepted:
  assumes "height pf \<noteq> []" "weight pf \<noteq> []" "age pf \<noteq> []"
    and "userId s = Some u" "write_ok env"
  shows "getProfile (SettingsPage_handleSubmit env pf s) u =
     Some (pf\<lparr>calorieTarget := calorieTarget_of env pf,
        profile.carbs := macros.carbs (getMacroTargets (calorieTarget_of env pf)),
        profile.protein := macros.protein (getMacroTargets (calorieTarget_of env pf)),
        profile.fat := macros.fat (getMacroTargets (calorieTarget_of env pf))\<rparr>)"
  using assms
  by (simp add: SettingsPage_handleSubmit_def App_handleProfileUpdate_def not_str_def Let_def
      getProfile_def setDoc_def update_conv')

text \<open>
  Claim C10. The initial setup and the settings update reject a submission if and only if
  the height, the weight or the age of the form is the empty string. Nothing else is
  checked: when the three are not empty, the targets are computed from whatever the
  fields hold and, with a signed-in user and a successful write, stored.
\<close>

theorem C10_rejected_iff_empty_measurement:
  "(rejected s (ProfileSetup_handleSubmit env fd s) \<longleftrightarrow>
      height fd = [] \<or> weight fd = [] \<or> age fd = [])
   \<and> (rejected s (SettingsPage_handleSubmit env pf s) \<longleftrightarrow>
      height pf = [] \<or> weight pf = [] \<or> age pf = [])
   \<and> (height fd \<noteq> [] \<and> weight fd \<noteq> [] \<and> age fd \<noteq> [] \<and> currentUser env = Some u \<and> write_ok env \<longrightarrow>
      map_option calorieTarget (getProfile (ProfileSetup_handleSubmit env fd s) u) =
        Some (calorieTarget_of env fd))
   \<and> (height pf \<noteq> [] \<and> weight pf \<noteq> [] \<and> age pf \<noteq> [] \<and> userId s = Some u \<and> write_ok env \<longrightarrow>
      map_option calorieTarget (getProfile (SettingsPage_handleSubmit env pf s) u) =
        Some (calorieTarget_of env pf))"
proof (intro conjI impI)
  show "rejected s (ProfileSetup_handleSubmit env fd s) \<longleftrightarrow>
      height fd = [] \<or> weight fd = [] \<or> age fd = []"
    by (rule setup_rejected_iff)
  show "rejected s (SettingsPage_handleSubmit env pf s) \<longleftrightarrow>
      height pf = [] \<or> weight pf = [] \<or> age pf = []"
    by (rule settings_rejected_iff)
next
  assume "height fd \<noteq> [] \<and> weight fd \<noteq> [] \<and> age fd \<noteq> [] \<and> currentUser env = Some u \<and> write_ok env"
  then show "map_option calorieTarget (getProfile (ProfileSetup_handleSubmit env fd s) u) =
        Some (calorieTarget_of env fd)"
    by (simp add: setup_accepted formData.defs profile.defs)
next
  assume "height pf \<noteq> [] \<and> weight pf \<noteq> [] \<and> age pf \<noteq> [] \<and> userId s = Some u \<and> write_ok env"
  then show "map_option calorieTarget (getProfile (SettingsPage_handleSubmit env pf s) u) =
        Some (calorieTarget_of env pf)"
    by (simp add: settings_accepted)
qed

lemma unparseable_target:
  "calorieTarget_of scenario_env
     \<lparr>height = ''abc'', weight = ''70'', age = ''30'', gender = ''x'', activityLevel = ''y'', goal = ''z''\<rparr>
   = NaN"
proof -
  have "parse_digits ''abc'' = NaN"
    by (simp add: parse_digits_def is_digit_def)
  then show ?thesis
    by (simp add: calorieTarget_of_def scenario_env_def parse_digits_scenario
        calculateBMR_def calculateTDEE_def adjustCaloriesForGoal_def get_property_def
        activityMultipliers_def object_prototype_names_def or_else_def js_eval)
qed

text \<open>
  Claim C10, witness: an empty height is rejected; the height \<open>abc\<close> with an unknown gender,
  activity level and goal is accepted, and the stored calorie target is \<open>NaN\<close>.
\<close>

theorem C10_witness:
  "rejected scenario_app (ProfileSetup_handleSubmit scenario_env
      \<lparr>height = [], weight = ''70'', age = ''30'', gender = ''male'', activityLevel = ''sedentary'',
        goal = ''maintain''\<rparr> scenario_app)
   \<and> \<not> rejected scenario_app (ProfileSetup_handleSubmit scenario_env
      \<lparr>height = ''abc'', weight = ''70'', age = ''30'', gender = ''x'', activityLevel = ''y'',
        goal = ''z''\<rparr> scenario_app)
   \<and> map_option calorieTarget (getProfile (ProfileSetup_handleSubmit scenario_env
      \<lparr>height = ''abc'', weight = ''70'', age = ''30'', gender = ''x'', activityLevel = ''y'',
        goal = ''z''\<rparr> scenario_app) ''u1'') = Some NaN"
proof -
  let ?empty = "\<lparr>height = [], weight = ''70'', age = ''30'', gender = ''male'',
    activityLevel = ''sedentary'', goal = ''maintain''\<rparr>"
  let ?odd = "\<lparr>height = ''abc'', weight = ''70'', age = ''30'', gender = ''x'', activityLevel = ''y'',
    goal = ''z''\<rparr>"
  have e: "currentUser scenario_env = Some ''u1''" "write_ok scenario_env"
    by (simp_all add: scenario_env_def)
  from C10_rejected_iff_empty_measurement [of scenario_app scenario_env ?empty]
  have 1: "rejected scenario_app (ProfileSetup_handleSubmit scenario_env ?empty scenario_app)"
    by simp
  from C10_rejected_iff_empty_measurement [of scenario_app scenario_env ?odd _ "''u1''"] e
  have 2: "\<not> rejected scenario_app (ProfileSetup_handleSubmit scenario_env ?odd scenario_app)"
    and 3: "map_option calorieTarget (getProfile (ProfileSetup_handleSubmit scenario_env ?odd scenario_app) ''u1'')
       = Some NaN"
    by (simp_all add: unparseable_target)
  from 1 2 3 show ?thesis by blast
qed

end
